theory Spec2Isabelle
  imports
    Main
    "HOL-Library.Word"
    "HOL-Library.Signed_Division"
    "HOL-Library.AList"
begin

section \<open>Bridge runtime: adapter statistics, connection pool, RPC adapter, discovery registry\<close>

text \<open>
  A shallow embedding of the Go sources
  \<^item> \<^verbatim>\<open>adapter.go\<close> (package adapter): \<^verbatim>\<open>BaseAdapter.recordLatency\<close>;
  \<^item> \<^verbatim>\<open>internal/bridge/adapters/grpc_adapter.go\<close>: \<^verbatim>\<open>ConnectionPool\<close>,
    \<^verbatim>\<open>GRPCAdapter.getConnection\<close>, \<^verbatim>\<open>GRPCAdapter.Call\<close>, the unary interceptors,
    \<^verbatim>\<open>mapGRPCError\<close>, \<^verbatim>\<open>extractErrorDetails\<close>;
  \<^item> \<^verbatim>\<open>discovery_service.go\<close> (package bridge): \<^verbatim>\<open>ServiceFilter.Matches\<close> and the
    registry operations of \<^verbatim>\<open>DiscoveryService\<close>.

  Conventions. Mutation is explicit state passing. A Go \<^verbatim>\<open>error\<close> result is an
  \<open>option\<close> (\<open>None\<close> is \<^verbatim>\<open>nil\<close>) or the left summand of a sum. Calls of the logger
  have no effect on any state modelled here and are left out. Mutexes are left out: every
  operation is modelled as running alone, which is what the locks give to the code
  between \<^verbatim>\<open>Lock\<close> and \<^verbatim>\<open>Unlock\<close>.
\<close>

subsection \<open>Go integers\<close>

text \<open>
  \<^verbatim>\<open>time.Duration\<close> is an \<^verbatim>\<open>int64\<close>: \<open>+\<close> and \<open>*\<close> wrap around (as on \<open>64 word\<close>),
  \<^verbatim>\<open>/\<close> reads both operands as signed and truncates towards zero.
\<close>

type_synonym Duration = "64 word"

definition go_div64 :: "64 word \<Rightarrow> 64 word \<Rightarrow> 64 word" where
  "go_div64 a b = word_of_int (sint a sdiv sint b)"

text \<open>Go's \<^verbatim>\<open>/\<close> and \<^verbatim>\<open>%\<close> on \<^verbatim>\<open>int\<close> values that stay far from the ends of the range.\<close>

definition go_div :: "int \<Rightarrow> int \<Rightarrow> int" where
  "go_div a b = a sdiv b"

definition go_rem :: "int \<Rightarrow> int \<Rightarrow> int" where
  "go_rem a b = a smod b"

subsection \<open>adapter.go: statistics of the base adapter\<close>

text \<open>
  \<^verbatim>\<open>AdapterStats\<close>, without the two \<^verbatim>\<open>time.Time\<close> fields and the \<^verbatim>\<open>float64\<close> field,
  which \<^verbatim>\<open>recordLatency\<close> neither reads nor writes.
\<close>

record AdapterStats =
  MessagesReceived :: "64 word"
  MessagesSent :: "64 word"
  Errors :: "64 word"
  Reconnects :: "64 word"
  AverageLatency :: Duration
  CurrentConnections :: int
  MaxConnections :: int
  RateLimitExceeded :: "64 word"

text \<open>The statistics \<^verbatim>\<open>NewBaseAdapter\<close> starts with: all zero but \<^verbatim>\<open>MaxConnections: 1\<close>.\<close>

definition NewBaseAdapter_stats :: AdapterStats where
  "NewBaseAdapter_stats =
     \<lparr>MessagesReceived = 0, MessagesSent = 0, Errors = 0, Reconnects = 0,
      AverageLatency = 0, CurrentConnections = 0, MaxConnections = 1,
      RateLimitExceeded = 0\<rparr>"

text \<open>
  \<^verbatim>\<open>
  func (a *BaseAdapter) recordLatency(duration time.Duration) {
      if a.stats.AverageLatency == 0 {
          a.stats.AverageLatency = duration
      } else {
          a.stats.AverageLatency = (a.stats.AverageLatency*9 + duration) / 10
      }
  }
  \<close>
\<close>

definition recordLatency :: "AdapterStats \<Rightarrow> Duration \<Rightarrow> AdapterStats" where
  "recordLatency st duration =
     (if AverageLatency st = 0
      then st\<lparr>AverageLatency := duration\<rparr>
      else st\<lparr>AverageLatency := go_div64 (AverageLatency st * 9 + duration) 10\<rparr>)"

text \<open>The stored average after each sample of a sequence of calls, oldest sample first.\<close>

fun latency_trace :: "AdapterStats \<Rightarrow> Duration list \<Rightarrow> Duration list" where
  "latency_trace st [] = []"
| "latency_trace st (s # ss) =
     AverageLatency (recordLatency st s) # latency_trace (recordLatency st s) ss"

text \<open>
  The spec's words, for comparison with the code: every sample moves the average to
  \<open>(previous * 9 + sample) / 10\<close>, except the very first sample recorded while the
  average is zero, which becomes the average. \<open>seeded\<close> says that this first sample has
  been seen.
\<close>

definition ewma_9_1 :: "Duration \<Rightarrow> Duration \<Rightarrow> Duration" where
  "ewma_9_1 prev s = go_div64 (prev * 9 + s) 10"

fun claimed_trace :: "bool \<Rightarrow> Duration \<Rightarrow> Duration list \<Rightarrow> Duration list" where
  "claimed_trace seeded avg [] = []"
| "claimed_trace seeded avg (s # ss) =
     (if \<not> seeded \<and> avg = 0
      then s # claimed_trace True s ss
      else ewma_9_1 avg s # claimed_trace seeded (ewma_9_1 avg s) ss)"

subsection \<open>grpc_adapter.go: errors and statuses\<close>

text \<open>
  A gRPC status, as package \<^verbatim>\<open>status\<close> gives it: a \<^verbatim>\<open>codes.Code\<close> (a \<^verbatim>\<open>uint32\<close>), a message
  and typed details. \<open>OtherDetail\<close> stands for a detail of any type the \<^verbatim>\<open>switch\<close> of
  \<^verbatim>\<open>extractErrorDetails\<close> does not name; it carries the detail's \<^verbatim>\<open>%v\<close> rendering.
\<close>

datatype Detail =
    BadRequest "(string \<times> string) list"
  | RequestInfo string string
  | ErrorInfo string string "(string \<times> string) list"
  | PreconditionFailure "(string \<times> string \<times> string) list"
  | QuotaFailure "(string \<times> string) list"
  | OtherDetail string

record grpc_Status =
  st_Code :: nat
  st_Message :: string
  st_Details :: "Detail list"

text \<open>The numbering of package \<^verbatim>\<open>codes\<close>.\<close>

definition codes_OK :: nat where "codes_OK = 0"
definition codes_Canceled :: nat where "codes_Canceled = 1"
definition codes_Unknown :: nat where "codes_Unknown = 2"
definition codes_InvalidArgument :: nat where "codes_InvalidArgument = 3"
definition codes_DeadlineExceeded :: nat where "codes_DeadlineExceeded = 4"
definition codes_NotFound :: nat where "codes_NotFound = 5"
definition codes_AlreadyExists :: nat where "codes_AlreadyExists = 6"
definition codes_PermissionDenied :: nat where "codes_PermissionDenied = 7"
definition codes_ResourceExhausted :: nat where "codes_ResourceExhausted = 8"
definition codes_FailedPrecondition :: nat where "codes_FailedPrecondition = 9"
definition codes_Aborted :: nat where "codes_Aborted = 10"
definition codes_OutOfRange :: nat where "codes_OutOfRange = 11"
definition codes_Unimplemented :: nat where "codes_Unimplemented = 12"
definition codes_Internal :: nat where "codes_Internal = 13"
definition codes_Unavailable :: nat where "codes_Unavailable = 14"
definition codes_DataLoss :: nat where "codes_DataLoss = 15"
definition codes_Unauthenticated :: nat where "codes_Unauthenticated = 16"

text \<open>
  The values of the \<^verbatim>\<open>map[string]interface{}\<close> that \<^verbatim>\<open>extractErrorDetails\<close> and
  \<^verbatim>\<open>mapGRPCError\<close> build; a Go map is written as the list of its entries.
\<close>

datatype DetailValue =
    VString string
  | VStringMap "(string \<times> string) list"
  | VStringMaps "(string \<times> string) list list"

type_synonym DetailMap = "(string \<times> DetailValue) list"

datatype BridgeDetailValue =
    VInt int
  | VDetails "DetailMap list"

record BridgeError =
  Code :: string
  Message :: string
  Details :: "(string \<times> BridgeDetailValue) list"

definition NewBridgeError ::
  "string \<Rightarrow> string \<Rightarrow> (string \<times> BridgeDetailValue) list \<Rightarrow> BridgeError" where
  "NewBridgeError code message details = \<lparr>Code = code, Message = message, Details = details\<rparr>"

text \<open>
  Go \<^verbatim>\<open>error\<close> values, by the way they are built in this file: \<^verbatim>\<open>errors.New(s)\<close>, an error
  of package \<^verbatim>\<open>status\<close>, \<^verbatim>\<open>fmt.Errorf(s + ": %w", e)\<close>, \<^verbatim>\<open>fmt.Errorf("%w: %v", e1, e2)\<close>
  and \<^verbatim>\<open>*BridgeError\<close>.
\<close>

datatype go_error =
    ErrorString string
  | StatusError grpc_Status
  | Errorf_w string go_error
  | Errorf_w_v go_error go_error
  | BridgeErr BridgeError

definition ErrConnectionFailed :: go_error where
  "ErrConnectionFailed = ErrorString ''failed to establish gRPC connection''"

text \<open>
  \<^verbatim>\<open>status.FromError\<close>: the status of an error of package \<^verbatim>\<open>status\<close>, and \<^verbatim>\<open>ok = false\<close>
  (here \<open>None\<close>) for any other error. \<^verbatim>\<open>status.Errorf(c, msg)\<close> builds such an error
  without details.
\<close>

fun status_FromError :: "go_error \<Rightarrow> grpc_Status option" where
  "status_FromError (StatusError st) = Some st"
| "status_FromError _ = None"

definition status_Errorf :: "nat \<Rightarrow> string \<Rightarrow> go_error" where
  "status_Errorf c msg = StatusError \<lparr>st_Code = c, st_Message = msg, st_Details = []\<rparr>"

text \<open>A call either returns or panics; the panic carries the \<^verbatim>\<open>%v\<close> rendering of its value.\<close>

datatype 'a outcome = Return 'a | Panic string

fun extractErrorDetail :: "Detail \<Rightarrow> DetailMap" where
  "extractErrorDetail (BadRequest violations) =
     [(''type'', VString ''BadRequest''),
      (''fieldViolations'',
         VStringMaps (map (\<lambda>(field, description).
            [(''field'', field), (''description'', description)]) violations))]"
| "extractErrorDetail (RequestInfo requestId servingData) =
     [(''type'', VString ''RequestInfo''),
      (''requestId'', VString requestId),
      (''servingData'', VString servingData)]"
| "extractErrorDetail (ErrorInfo reason domain metadata) =
     [(''type'', VString ''ErrorInfo''),
      (''reason'', VString reason),
      (''domain'', VString domain),
      (''metadata'', VStringMap metadata)]"
| "extractErrorDetail (PreconditionFailure violations) =
     [(''type'', VString ''PreconditionFailure''),
      (''violations'',
         VStringMaps (map (\<lambda>(ty, subject, description).
            [(''type'', ty), (''subject'', subject), (''description'', description)])
            violations))]"
| "extractErrorDetail (QuotaFailure violations) =
     [(''type'', VString ''QuotaFailure''),
      (''violations'',
         VStringMaps (map (\<lambda>(subject, description).
            [(''subject'', subject), (''description'', description)]) violations))]"
| "extractErrorDetail (OtherDetail v) =
     [(''type'', VString ''Unknown''), (''value'', VString v)]"

definition extractErrorDetails :: "grpc_Status \<Rightarrow> DetailMap list" where
  "extractErrorDetails st = map extractErrorDetail (st_Details st)"

text \<open>The second argument of every \<^verbatim>\<open>NewBridgeError\<close> call of \<^verbatim>\<open>mapGRPCError\<close>.\<close>

definition bridge_details :: "int \<Rightarrow> grpc_Status \<Rightarrow> (string \<times> BridgeDetailValue) list" where
  "bridge_details c st = [(''code'', VInt c), (''details'', VDetails (extractErrorDetails st))]"

text \<open>The \<^verbatim>\<open>switch st.Code()\<close> of \<^verbatim>\<open>mapGRPCError\<close>, cases in the order of the source.\<close>

definition mapGRPCError_switch :: "grpc_Status \<Rightarrow> BridgeError" where
  "mapGRPCError_switch st =
    (if st_Code st = codes_InvalidArgument then
       NewBridgeError ''INVALID_ARGUMENT'' (st_Message st)
         (bridge_details (int codes_InvalidArgument) st)
     else if st_Code st = codes_NotFound then
       NewBridgeError ''NOT_FOUND'' (st_Message st)
         (bridge_details (int codes_NotFound) st)
     else if st_Code st = codes_AlreadyExists then
       NewBridgeError ''ALREADY_EXISTS'' (st_Message st)
         (bridge_details (int codes_AlreadyExists) st)
     else if st_Code st = codes_PermissionDenied then
       NewBridgeError ''PERMISSION_DENIED'' (st_Message st)
         (bridge_details (int codes_PermissionDenied) st)
     else if st_Code st = codes_ResourceExhausted then
       NewBridgeError ''RESOURCE_EXHAUSTED'' (st_Message st)
         (bridge_details (int codes_ResourceExhausted) st)
     else if st_Code st = codes_FailedPrecondition then
       NewBridgeError ''FAILED_PRECONDITION'' (st_Message st)
         (bridge_details (int codes_FailedPrecondition) st)
     else if st_Code st = codes_Aborted then
       NewBridgeError ''ABORTED'' (st_Message st)
         (bridge_details (int codes_Aborted) st)
     else if st_Code st = codes_OutOfRange then
       NewBridgeError ''OUT_OF_RANGE'' (st_Message st)
         (bridge_details (int codes_OutOfRange) st)
     else if st_Code st = codes_Unimplemented then
       NewBridgeError ''UNIMPLEMENTED'' (st_Message st)
         (bridge_details (int codes_Unimplemented) st)
     else if st_Code st = codes_Internal then
       NewBridgeError ''INTERNAL'' (st_Message st)
         (bridge_details (int codes_Internal) st)
     else if st_Code st = codes_Unavailable then
       NewBridgeError ''UNAVAILABLE'' (st_Message st)
         (bridge_details (int codes_Unavailable) st)
     else if st_Code st = codes_DataLoss then
       NewBridgeError ''DATA_LOSS'' (st_Message st)
         (bridge_details (int codes_DataLoss) st)
     else if st_Code st = codes_Unauthenticated then
       NewBridgeError ''UNAUTHENTICATED'' (st_Message st)
         (bridge_details (int codes_Unauthenticated) st)
     else if st_Code st = codes_DeadlineExceeded then
       NewBridgeError ''DEADLINE_EXCEEDED'' (st_Message st)
         (bridge_details (int codes_DeadlineExceeded) st)
     else if st_Code st = codes_Canceled then
       NewBridgeError ''CANCELED'' (st_Message st)
         (bridge_details (int codes_Canceled) st)
     else
       NewBridgeError ''UNKNOWN'' (st_Message st)
         (bridge_details (int (st_Code st)) st))"

definition mapGRPCError :: "go_error option \<Rightarrow> go_error option" where
  "mapGRPCError err =
     (case err of
        None \<Rightarrow> None
      | Some e \<Rightarrow>
          (case status_FromError e of
             None \<Rightarrow> Some (ErrorString ''unknown error'')
           | Some st \<Rightarrow> Some (BridgeErr (mapGRPCError_switch st))))"

text \<open>The sixteen canonical kinds of the bridge's error taxonomy (section 7 of the spec).\<close>

definition canonical_kinds :: "string list" where
  "canonical_kinds =
     [''INVALID_ARGUMENT'', ''NOT_FOUND'', ''ALREADY_EXISTS'', ''PERMISSION_DENIED'',
      ''RESOURCE_EXHAUSTED'', ''FAILED_PRECONDITION'', ''ABORTED'', ''OUT_OF_RANGE'',
      ''UNIMPLEMENTED'', ''INTERNAL'', ''UNAVAILABLE'', ''DATA_LOSS'', ''UNAUTHENTICATED'',
      ''DEADLINE_EXCEEDED'', ''CANCELED'', ''UNKNOWN'']"

text \<open>An error of the taxonomy: a \<^verbatim>\<open>*BridgeError\<close> whose \<^verbatim>\<open>Code\<close> is one of the kinds.\<close>

fun is_canonical :: "go_error \<Rightarrow> bool" where
  "is_canonical (BridgeErr b) = (Code b \<in> set canonical_kinds)"
| "is_canonical _ = False"

subsection \<open>grpc_adapter.go: metrics, connections and the environment\<close>

text \<open>
  Modelled from the spec: \<^verbatim>\<open>metrics.Collector\<close> (package \<^verbatim>\<open>internal/core/metrics\<close>) is not
  among the sources. The spec names the counters and histograms the core emits; the
  collector is modelled as the record of the calls made on it, oldest first, so that
  the value of a counter is the number of its \<^verbatim>\<open>IncCounter\<close> calls. The observed
  value of a histogram (a \<^verbatim>\<open>float64\<close> of seconds) is not recorded. \<^verbatim>\<open>a.metrics\<close> may be
  \<^verbatim>\<open>nil\<close> (\<open>None\<close>); every use in the file is guarded by \<^verbatim>\<open>if a.metrics != nil\<close>.
\<close>

datatype MetricCall =
    IncCounter string "(string \<times> string) list"
  | ObserveHistogram string "(string \<times> string) list"

type_synonym Collector = "MetricCall list"

definition metrics_IncCounter ::
  "string \<Rightarrow> (string \<times> string) list \<Rightarrow> Collector option \<Rightarrow> Collector option" where
  "metrics_IncCounter name labels m =
     (case m of None \<Rightarrow> None | Some calls \<Rightarrow> Some (calls @ [IncCounter name labels]))"

definition metrics_ObserveHistogram ::
  "string \<Rightarrow> (string \<times> string) list \<Rightarrow> Collector option \<Rightarrow> Collector option" where
  "metrics_ObserveHistogram name labels m =
     (case m of None \<Rightarrow> None | Some calls \<Rightarrow> Some (calls @ [ObserveHistogram name labels]))"

fun is_IncCounter :: "string \<Rightarrow> MetricCall \<Rightarrow> bool" where
  "is_IncCounter name (IncCounter n labels) = (n = name)"
| "is_IncCounter name (ObserveHistogram n labels) = False"

text \<open>
  The number of increments of the counter \<open>name\<close> that were recorded, over all labels;
  without a collector nothing is recorded.
\<close>

definition counter_value :: "string \<Rightarrow> Collector option \<Rightarrow> nat" where
  "counter_value name m =
     (case m of None \<Rightarrow> 0 | Some calls \<Rightarrow> length (filter (is_IncCounter name) calls))"

text \<open>
  Client connections live outside the adapter. A \<^verbatim>\<open>*grpc.ClientConn\<close> is the number of the
  dial that made it; the world records how many dials were made and the state of every
  connection.
\<close>

datatype ConnState = Undialled | Ready | Shutdown

record World =
  dialled :: nat
  conn_state :: "nat \<Rightarrow> ConnState"

text \<open>
  What the adapter cannot decide: whether the \<open>k\<close>-th dial fails (and with which error),
  whether the key pair loads, what \<^verbatim>\<open>conn.Invoke\<close> returns on a connection for a method,
  and \<^verbatim>\<open>codes.Code.String\<close>.
\<close>

record Env =
  dial :: "nat \<Rightarrow> go_error option"
  LoadX509KeyPair :: "string \<Rightarrow> string \<Rightarrow> go_error option"
  Invoke :: "nat \<Rightarrow> string \<Rightarrow> go_error option"
  Code_String :: "nat \<Rightarrow> string"

definition grpc_DialContext :: "(nat \<Rightarrow> go_error option) \<Rightarrow> World \<Rightarrow> (go_error + nat) \<times> World" where
  "grpc_DialContext d w =
     (case d (dialled w) of
        Some err \<Rightarrow> (Inl err, w\<lparr>dialled := Suc (dialled w)\<rparr>)
      | None \<Rightarrow>
          (Inr (dialled w),
           w\<lparr>dialled := Suc (dialled w), conn_state := (conn_state w)(dialled w := Ready)\<rparr>))"

definition ClientConn_Close :: "nat \<Rightarrow> World \<Rightarrow> World" where
  "ClientConn_Close c w = w\<lparr>conn_state := (conn_state w)(c := Shutdown)\<rparr>"

subsection \<open>grpc_adapter.go: the connection pool\<close>

text \<open>
  \<^verbatim>\<open>ConnectionPool\<close>, without its mutex, its dial options and its health-check flag (no
  method reads the last two but to pass the options to the dial).
\<close>

record ConnectionPool =
  target :: string
  connections :: "nat list"
  currentIndex :: int
  pool_size :: int

text \<open>
  \<^verbatim>\<open>
  for i := 0; i < p.size; i++ {
      conn, err := grpc.DialContext(ctx, p.target, p.dialOptions...)
      if err != nil {
          for _, c := range p.connections { c.Close() }
          p.connections = nil
          return err
      }
      p.connections = append(p.connections, conn)
  }
  return nil
  \<close>
\<close>

function Initialize_loop ::
  "(nat \<Rightarrow> go_error option) \<Rightarrow> int \<Rightarrow> ConnectionPool \<Rightarrow> World
     \<Rightarrow> go_error option \<times> ConnectionPool \<times> World" where
  "Initialize_loop d i p w =
     (if i < pool_size p then
        (case grpc_DialContext d w of
           (Inl err, w1) \<Rightarrow>
             (Some err, p\<lparr>connections := []\<rparr>, fold ClientConn_Close (connections p) w1)
         | (Inr conn, w1) \<Rightarrow>
             Initialize_loop d (i + 1) (p\<lparr>connections := connections p @ [conn]\<rparr>) w1)
      else (None, p, w))"
  by pat_completeness auto
termination
  by (relation "measure (\<lambda>(d, i, p, w). nat (pool_size p - i))") auto

definition ConnectionPool_Initialize ::
  "(nat \<Rightarrow> go_error option) \<Rightarrow> ConnectionPool \<Rightarrow> World
     \<Rightarrow> go_error option \<times> ConnectionPool \<times> World" where
  "ConnectionPool_Initialize d p w = Initialize_loop d 0 p w"

text \<open>
  \<^verbatim>\<open>
  if len(p.connections) == 0 {
      return nil, errors.New("no connections available in pool")
  }
  conn := p.connections[p.currentIndex]
  p.currentIndex = (p.currentIndex + 1) % len(p.connections)
  return conn, nil
  \<close>
  Indexing outside the slice panics.
\<close>

definition ConnectionPool_Get :: "ConnectionPool \<Rightarrow> (go_error + nat) outcome \<times> ConnectionPool" where
  "ConnectionPool_Get p =
     (if length (connections p) = 0 then
        (Return (Inl (ErrorString ''no connections available in pool'')), p)
      else if currentIndex p < 0 \<or> int (length (connections p)) \<le> currentIndex p then
        (Panic ''index out of range'', p)
      else
        (Return (Inr (connections p ! nat (currentIndex p))),
         p\<lparr>currentIndex := go_rem (currentIndex p + 1) (int (length (connections p)))\<rparr>))"

definition ConnectionPool_Close :: "ConnectionPool \<Rightarrow> World \<Rightarrow> ConnectionPool \<times> World" where
  "ConnectionPool_Close p w = (p\<lparr>connections := []\<rparr>, fold ClientConn_Close (connections p) w)"

text \<open>The results of \<open>n\<close> calls of \<^verbatim>\<open>Get\<close> in a row, and the pool they leave.\<close>

fun Get_times :: "nat \<Rightarrow> ConnectionPool \<Rightarrow> (go_error + nat) outcome list \<times> ConnectionPool" where
  "Get_times 0 p = ([], p)"
| "Get_times (Suc n) p =
     (case ConnectionPool_Get p of
        (r, p1) \<Rightarrow> (case Get_times n p1 of (rs, p2) \<Rightarrow> (r # rs, p2)))"

subsection \<open>grpc_adapter.go: the adapter\<close>

text \<open>
  \<^verbatim>\<open>GRPCAdapterConfig\<close>, the fields that \<^verbatim>\<open>getConnection\<close> and \<^verbatim>\<open>getTLSCredentials\<close> read to
  decide what they do. The message sizes, keepalive parameters and timeouts only
  parameterise the dial and the call, whose outcomes are given by \<open>Env\<close>.
\<close>

record GRPCAdapterConfig =
  PoolSize :: int
  EnableTLS :: bool
  TLSCertFile :: string
  TLSKeyFile :: string
  TLSCAFile :: string

text \<open>
  \<^verbatim>\<open>GRPCAdapter\<close>: the configuration, the map \<^verbatim>\<open>connections\<close> from a target to its pool
  (\<open>adapter_connections\<close>, since a pool has a field of the same name) and the metrics
  collector, which may be \<^verbatim>\<open>nil\<close>.
\<close>

record GRPCAdapter =
  config :: GRPCAdapterConfig
  adapter_connections :: "string \<rightharpoonup> ConnectionPool"
  metrics :: "Collector option"

datatype ClientAuthType = NoClientCert | RequireAndVerifyClientCert

definition getTLSCredentials :: "Env \<Rightarrow> GRPCAdapter \<Rightarrow> go_error + ClientAuthType" where
  "getTLSCredentials env a =
     (if TLSCertFile (config a) = [] \<or> TLSKeyFile (config a) = [] then
        Inl (ErrorString ''TLS certificate or key file not specified'')
      else
        (case LoadX509KeyPair env (TLSCertFile (config a)) (TLSKeyFile (config a)) of
           Some err \<Rightarrow> Inl (Errorf_w ''failed to load server certificate and key'' err)
         | None \<Rightarrow>
             Inr (if TLSCAFile (config a) \<noteq> [] then RequireAndVerifyClientCert
                  else NoClientCert)))"

text \<open>
  \<^verbatim>\<open>getConnection\<close>: the pool of the target if there is one, else a new pool, initialised
  and stored; then \<^verbatim>\<open>pool.Get()\<close>. The pool is held by pointer, so the cursor that \<^verbatim>\<open>Get\<close>
  moves is the cursor of the pool in the map. \<^verbatim>\<open>make([]*grpc.ClientConn, 0, PoolSize)\<close>
  panics when \<^verbatim>\<open>PoolSize\<close> is negative. A pool whose initialisation fails is not stored.
\<close>

definition getConnection ::
  "Env \<Rightarrow> GRPCAdapter \<Rightarrow> World \<Rightarrow> string \<Rightarrow> (go_error + nat) outcome \<times> GRPCAdapter \<times> World" where
  "getConnection env a w tgt =
     (case adapter_connections a tgt of
        Some pool \<Rightarrow>
          (case ConnectionPool_Get pool of
             (r, pool1) \<Rightarrow>
               (r, a\<lparr>adapter_connections := (adapter_connections a)(tgt \<mapsto> pool1)\<rparr>, w))
      | None \<Rightarrow>
          (case (if EnableTLS (config a)
                 then map_sum id Some (getTLSCredentials env a) else Inr None) of
             Inl err \<Rightarrow> (Return (Inl (Errorf_w ''failed to load TLS credentials'' err)), a, w)
           | Inr creds \<Rightarrow>
               if PoolSize (config a) < 0 then (Panic ''makeslice: cap out of range'', a, w)
               else
                 (case ConnectionPool_Initialize (dial env)
                         \<lparr>target = tgt, connections = [], currentIndex = 0,
                          pool_size = PoolSize (config a)\<rparr> w of
                    (Some err, pool1, w1) \<Rightarrow>
                      (Return (Inl (Errorf_w ''failed to initialize connection pool'' err)), a, w1)
                  | (None, pool1, w1) \<Rightarrow>
                      (case ConnectionPool_Get pool1 of
                         (r, pool2) \<Rightarrow>
                           (r, a\<lparr>adapter_connections := (adapter_connections a)(tgt \<mapsto> pool2)\<rparr>,
                            w1)))))"

definition grpcStatusCode :: "Env \<Rightarrow> go_error option \<Rightarrow> string" where
  "grpcStatusCode env err =
     (case err of
        None \<Rightarrow> ''ok''
      | Some e \<Rightarrow>
          (case status_FromError e of
             None \<Rightarrow> ''unknown''
           | Some st \<Rightarrow> Code_String env (st_Code st)))"

text \<open>
  \<^verbatim>\<open>Call\<close>. The request and the response are not modelled: \<open>Invoke env conn mth\<close> is the
  error that \<^verbatim>\<open>conn.Invoke\<close> returns under the call's timeout.
\<close>

definition Call ::
  "Env \<Rightarrow> GRPCAdapter \<Rightarrow> World \<Rightarrow> string \<Rightarrow> string
     \<Rightarrow> go_error option outcome \<times> GRPCAdapter \<times> World" where
  "Call env a w tgt mth =
     (case getConnection env a w tgt of
        (Panic v, a1, w1) \<Rightarrow> (Panic v, a1, w1)
      | (Return (Inl err), a1, w1) \<Rightarrow>
          (Return (Some (Errorf_w_v ErrConnectionFailed err)),
           a1\<lparr>metrics := metrics_IncCounter ''grpc_connection_errors'' [(''target'', tgt)]
                  (metrics a1)\<rparr>,
           w1)
      | (Return (Inr conn), a1, w1) \<Rightarrow>
          (let err = Invoke env conn mth;
               m1 = metrics_IncCounter ''grpc.requests_total'' [(''method'', mth)] (metrics a1);
               m2 = metrics_ObserveHistogram ''grpc.request_duration_seconds''
                      [(''method'', mth)] m1;
               m3 = (if err \<noteq> None
                     then metrics_IncCounter ''grpc.errors_total''
                            [(''method'', mth), (''code'', grpcStatusCode env err)] m2
                     else m2)
           in (Return (mapGRPCError err), a1\<lparr>metrics := m3\<rparr>, w1)))"

subsection \<open>grpc_adapter.go: the unary interceptors\<close>

text \<open>
  A unary handler returns \<^verbatim>\<open>(resp, err)\<close> or panics; it runs on the adapter, whose
  collector the interceptors write. On Go 1.21 (the toolchain of the repository's
  Dockerfile) \<^verbatim>\<open>recover()\<close> is not \<^verbatim>\<open>nil\<close> for any panic.
\<close>

type_synonym 'r UnaryResult = "('r option \<times> go_error option) outcome"
type_synonym 'r UnaryHandler = "GRPCAdapter \<Rightarrow> 'r UnaryResult \<times> GRPCAdapter"

definition loggingInterceptor :: "string \<Rightarrow> 'r UnaryHandler \<Rightarrow> 'r UnaryHandler" where
  "loggingInterceptor FullMethod handler a =
     (case handler a of
        (Panic v, a1) \<Rightarrow> (Panic v, a1)
      | (Return r, a1) \<Rightarrow>
          (Return r,
           a1\<lparr>metrics := metrics_IncCounter ''grpc.requests_total'' [(''method'', FullMethod)]
                  (metrics a1)\<rparr>))"

definition metricsInterceptor :: "Env \<Rightarrow> string \<Rightarrow> 'r UnaryHandler \<Rightarrow> 'r UnaryHandler" where
  "metricsInterceptor env FullMethod handler a =
     (case handler a of
        (Panic v, a1) \<Rightarrow> (Panic v, a1)
      | (Return (resp, err), a1) \<Rightarrow>
          (let m1 = metrics_ObserveHistogram ''grpc.request_duration_seconds''
                      [(''method'', FullMethod)] (metrics a1);
               m2 = (if err \<noteq> None
                     then metrics_IncCounter ''grpc.errors_total''
                            [(''method'', FullMethod), (''code'', grpcStatusCode env err)] m1
                     else m1)
           in (Return (resp, err), a1\<lparr>metrics := m2\<rparr>)))"

text \<open>
  \<^verbatim>\<open>
  defer func() {
      if r := recover(); r != nil {
          err = status.Errorf(codes.Internal, "internal error")
          if a.metrics != nil {
              a.metrics.IncCounter("grpc.panics_total", map[string]string{"method": info.FullMethod})
          }
      }
  }()
  return handler(ctx, req)
  \<close>
  When the handler panics the named result \<^verbatim>\<open>resp\<close> still has its zero value \<^verbatim>\<open>nil\<close>.
\<close>

definition recoveryInterceptor :: "string \<Rightarrow> 'r UnaryHandler \<Rightarrow> 'r UnaryHandler" where
  "recoveryInterceptor FullMethod handler a =
     (case handler a of
        (Return r, a1) \<Rightarrow> (Return r, a1)
      | (Panic v, a1) \<Rightarrow>
          (Return (None, Some (status_Errorf codes_Internal ''internal error'')),
           a1\<lparr>metrics := metrics_IncCounter ''grpc.panics_total'' [(''method'', FullMethod)]
                  (metrics a1)\<rparr>))"

text \<open>The timeout interceptor only hands a derived context to the handler.\<close>

definition timeoutInterceptor :: "'r UnaryHandler \<Rightarrow> 'r UnaryHandler" where
  "timeoutInterceptor handler a = handler a"

text \<open>
  The chain of \<^verbatim>\<open>NewGRPCAdapter\<close>: logging, metrics, recovery, timeout, added in this
  order and given to \<^verbatim>\<open>grpc.ChainUnaryInterceptor\<close>, which runs the first one outermost.
\<close>

definition unary_chain :: "Env \<Rightarrow> string \<Rightarrow> 'r UnaryHandler \<Rightarrow> 'r UnaryHandler" where
  "unary_chain env FullMethod handler =
     loggingInterceptor FullMethod
       (metricsInterceptor env FullMethod
          (recoveryInterceptor FullMethod (timeoutInterceptor handler)))"

subsection \<open>discovery_service.go: services, filters and events\<close>

text \<open>
  Modelled from the spec: the declaration of \<^verbatim>\<open>protocols.ServiceInfo\<close> is not among the
  sources. Its fields are those the spec lists (section 3) and the registry uses:
  \<^verbatim>\<open>ID\<close>, \<^verbatim>\<open>Name\<close>, \<^verbatim>\<open>Type\<close>, \<^verbatim>\<open>Version\<close>, \<^verbatim>\<open>Address\<close>, \<^verbatim>\<open>Port\<close>, \<^verbatim>\<open>Metadata\<close> (a map from
  string to string, written as the list of its entries and read with \<open>map_of\<close>),
  \<^verbatim>\<open>Status\<close> and \<^verbatim>\<open>LastUpdated\<close> (epoch milliseconds).
\<close>

record ServiceInfo =
  ID :: string
  Name :: string
  Type :: string
  Version :: string
  Address :: string
  Port :: int
  Metadata :: "(string \<times> string) list"
  Status :: string
  LastUpdated :: int

definition ServiceStatusRunning :: string where
  "ServiceStatusRunning = ''running''"

definition ServiceStatusFailed :: string where
  "ServiceStatusFailed = ''failed''"

datatype ServiceChangeType =
    ServiceChangeTypeAdded
  | ServiceChangeTypeUpdated
  | ServiceChangeTypeRemoved

record ServiceChangeEvent =
  ev_Type :: ServiceChangeType
  ev_ServiceInfo :: ServiceInfo
  Timestamp :: int

text \<open>\<^verbatim>\<open>ServiceFilter\<close>; its fields carry the prefix \<open>f_\<close>, a service has fields of the same names.\<close>

record ServiceFilter =
  f_ServiceType :: string
  f_Version :: string
  f_Name :: string
  f_Address :: string
  f_Metadata :: "(string \<times> string) list"

text \<open>
  \<^verbatim>\<open>
  for k, v := range f.Metadata {
      if serviceValue, ok := service.Metadata[k]; !ok || serviceValue != v {
          return false
      }
  }
  \<close>
\<close>

fun metadata_matches :: "(string \<times> string) list \<Rightarrow> (string \<times> string) list \<Rightarrow> bool" where
  "metadata_matches [] serviceMetadata = True"
| "metadata_matches ((k, v) # rest) serviceMetadata =
     (case map_of serviceMetadata k of
        None \<Rightarrow> False
      | Some serviceValue \<Rightarrow>
          if serviceValue \<noteq> v then False else metadata_matches rest serviceMetadata)"

definition Matches :: "ServiceFilter \<Rightarrow> ServiceInfo \<Rightarrow> bool" where
  "Matches f service =
     (if f_ServiceType f \<noteq> [] \<and> f_ServiceType f \<noteq> Type service then False
      else if f_Version f \<noteq> [] \<and> f_Version f \<noteq> Version service then False
      else if f_Name f \<noteq> [] \<and> f_Name f \<noteq> Name service then False
      else if f_Address f \<noteq> [] \<and> f_Address f \<noteq> Address service then False
      else if length (f_Metadata f) > 0 then metadata_matches (f_Metadata f) (Metadata service)
      else True)"

subsection \<open>discovery_service.go: the registry\<close>

definition ErrServiceNotFound :: go_error where
  "ErrServiceNotFound = ErrorString ''service not found''"

definition ErrInvalidServiceInfo :: go_error where
  "ErrInvalidServiceInfo = ErrorString ''invalid service information''"

definition ErrNotInitialized :: go_error where
  "ErrNotInitialized = ErrorString ''discovery service not initialized''"

text \<open>
  \<^verbatim>\<open>DiscoveryConfig\<close>: the fields that the registry operations read. The intervals, the
  timeout, the TTL and the storage selector are read by the background loop and by
  \<^verbatim>\<open>Initialize\<close>'s log line only.
\<close>

record DiscoveryConfig =
  EnableWatching :: bool
  EnableHealthChecks :: bool
  DefaultServiceStatus :: string

text \<open>
  Modelled from the spec: \<^verbatim>\<open>metrics.BridgeMetrics\<close> (package \<^verbatim>\<open>internal/core/metrics\<close>) is
  not among the sources; the registry increments its counters \<^verbatim>\<open>ConnectionsTotal\<close> and
  \<^verbatim>\<open>ConnectionFailures\<close>.
\<close>

record BridgeMetrics =
  ConnectionsTotal :: nat
  ConnectionFailures :: nat

text \<open>
  An event channel. \<open>capacity\<close> bounds the events a channel takes without a receiver
  taking one out (its buffer size); \<open>buffer\<close> holds the events sent and not yet
  received, oldest first. Receiving is the watcher's business and not modelled.
\<close>

record Chan =
  capacity :: nat
  buffer :: "ServiceChangeEvent list"

text \<open>
  \<^verbatim>\<open>DiscoveryService\<close>. The maps \<^verbatim>\<open>services\<close> and \<^verbatim>\<open>eventListeners\<close> are lists of entries
  with distinct keys, so that they can be ranged over; a listener's key is the number
  \<open>n\<close> of its ID \<^verbatim>\<open>"listener-n"\<close>, its value the address of its channel. \<open>healthChecker\<close>
  is \<^verbatim>\<open>CheckHealth\<close> of the pluggable checker. The last three fields are not fields of
  the Go struct but the world it runs in: the channels by address, and the clock, of
  which \<open>clock d k\<close> is the \<open>k\<close>-th reading of \<^verbatim>\<open>time.Now().UnixNano()\<close> and \<open>ticks\<close> counts
  the readings made.
\<close>

record DiscoveryService =
  disc_config :: DiscoveryConfig
  services :: "(string \<times> ServiceInfo) list"
  healthChecker :: "ServiceInfo \<Rightarrow> go_error + bool"
  eventListeners :: "(int \<times> nat) list"
  disc_metrics :: "BridgeMetrics option"
  initialized :: bool
  chans :: "nat \<Rightarrow> Chan"
  clock :: "nat \<Rightarrow> int"
  ticks :: nat

definition time_Now_UnixNano :: "DiscoveryService \<Rightarrow> int \<times> DiscoveryService" where
  "time_Now_UnixNano d = (clock d (ticks d), d\<lparr>ticks := Suc (ticks d)\<rparr>)"

text \<open>\<^verbatim>\<open>time.Now().UnixNano() / int64(time.Millisecond)\<close>\<close>

definition now_millis :: "DiscoveryService \<Rightarrow> int \<times> DiscoveryService" where
  "now_millis d = (go_div (clock d (ticks d)) 1000000, d\<lparr>ticks := Suc (ticks d)\<rparr>)"

text \<open>
  \<^verbatim>\<open>select { case listener <- event: default: }\<close>: the event goes into the channel if
  there is room, else it is dropped.
\<close>

definition try_send :: "nat \<Rightarrow> ServiceChangeEvent \<Rightarrow> (nat \<Rightarrow> Chan) \<Rightarrow> (nat \<Rightarrow> Chan)" where
  "try_send c ev st =
     (if length (buffer (st c)) < capacity (st c)
      then st(c := (st c)\<lparr>buffer := buffer (st c) @ [ev]\<rparr>)
      else st)"

text \<open>
  \<^verbatim>\<open>notifyListeners\<close> ranges over the listeners in an order Go does not fix. The same
  event goes to every listener, so the channels end up the same in every order.
\<close>

definition notifyListeners :: "ServiceChangeEvent \<Rightarrow> DiscoveryService \<Rightarrow> DiscoveryService" where
  "notifyListeners event d =
     d\<lparr>chans := fold (\<lambda>(lid, listener). try_send listener event) (eventListeners d) (chans d)\<rparr>"

definition ConnectionsTotal_Inc :: "DiscoveryService \<Rightarrow> DiscoveryService" where
  "ConnectionsTotal_Inc d =
     d\<lparr>disc_metrics :=
          map_option (\<lambda>m. m\<lparr>ConnectionsTotal := Suc (ConnectionsTotal m)\<rparr>) (disc_metrics d)\<rparr>"

definition ConnectionFailures_Inc :: "DiscoveryService \<Rightarrow> DiscoveryService" where
  "ConnectionFailures_Inc d =
     d\<lparr>disc_metrics :=
          map_option (\<lambda>m. m\<lparr>ConnectionFailures := Suc (ConnectionFailures m)\<rparr>) (disc_metrics d)\<rparr>"

definition RegisterService :: "DiscoveryService \<Rightarrow> ServiceInfo \<Rightarrow> go_error option \<times> DiscoveryService" where
  "RegisterService d info =
     (if \<not> initialized d then (Some ErrNotInitialized, d)
      else if ID info = [] \<or> Name info = [] \<or> Address info = [] \<or> Port info = 0
      then (Some ErrInvalidServiceInfo, d)
      else
        (case map_of (services d) (ID info) of
           Some existing \<Rightarrow>
             (let d1 = d\<lparr>services := AList.update (ID info) info (services d)\<rparr>;
                  (t, d2) = now_millis d1;
                  d3 = notifyListeners
                         \<lparr>ev_Type = ServiceChangeTypeUpdated, ev_ServiceInfo = info,
                          Timestamp = t\<rparr> d2
              in (None, ConnectionsTotal_Inc d3))
         | None \<Rightarrow>
             (let info1 = (if Status info = []
                           then info\<lparr>Status := DefaultServiceStatus (disc_config d)\<rparr>
                           else info);
                  (t1, d1) = now_millis d;
                  info2 = info1\<lparr>LastUpdated := t1\<rparr>;
                  d2 = d1\<lparr>services := AList.update (ID info2) info2 (services d1)\<rparr>;
                  (t2, d3) = now_millis d2;
                  d4 = notifyListeners
                         \<lparr>ev_Type = ServiceChangeTypeAdded, ev_ServiceInfo = info2,
                          Timestamp = t2\<rparr> d3
              in (None, ConnectionsTotal_Inc d4))))"

definition DeregisterService :: "DiscoveryService \<Rightarrow> string \<Rightarrow> go_error option \<times> DiscoveryService" where
  "DeregisterService d serviceID =
     (if \<not> initialized d then (Some ErrNotInitialized, d)
      else
        (case map_of (services d) serviceID of
           None \<Rightarrow> (Some ErrServiceNotFound, d)
         | Some info \<Rightarrow>
             (let d1 = d\<lparr>services := AList.delete serviceID (services d)\<rparr>;
                  (t, d2) = now_millis d1;
                  d3 = notifyListeners
                         \<lparr>ev_Type = ServiceChangeTypeRemoved, ev_ServiceInfo = info,
                          Timestamp = t\<rparr> d2
              in (None, ConnectionFailures_Inc d3))))"

definition GetService :: "DiscoveryService \<Rightarrow> string \<Rightarrow> go_error + ServiceInfo" where
  "GetService d serviceID =
     (if \<not> initialized d then Inl ErrNotInitialized
      else (case map_of (services d) serviceID of
              None \<Rightarrow> Inl ErrServiceNotFound
            | Some info \<Rightarrow> Inr info))"

text \<open>
  \<^verbatim>\<open>FindServices\<close> ranges over the map in an order Go does not fix; the list of entries
  gives one such order.
\<close>

definition FindServices :: "DiscoveryService \<Rightarrow> ServiceFilter \<Rightarrow> go_error + ServiceInfo list" where
  "FindServices d f =
     (if \<not> initialized d then Inl ErrNotInitialized
      else Inr (filter (Matches f) (map snd (services d))))"

text \<open>
  The replay loop of \<^verbatim>\<open>WatchServices\<close>: an \<^verbatim>\<open>added\<close> event for every registered service
  that matches the filter, sent without blocking to the new listener's channel.
\<close>

fun replay_services ::
  "ServiceFilter \<Rightarrow> nat \<Rightarrow> (string \<times> ServiceInfo) list \<Rightarrow> DiscoveryService \<Rightarrow> DiscoveryService" where
  "replay_services f eventChan [] d = d"
| "replay_services f eventChan ((sid, info) # rest) d =
     (if Matches f info then
        (case now_millis d of
           (t, d1) \<Rightarrow>
             replay_services f eventChan rest
               (d1\<lparr>chans := try_send eventChan
                   \<lparr>ev_Type = ServiceChangeTypeAdded, ev_ServiceInfo = info, Timestamp = t\<rparr>
                   (chans d1)\<rparr>))
      else replay_services f eventChan rest d)"

text \<open>
  \<^verbatim>\<open>WatchServices\<close>. The result is the number \<open>n\<close> of the listener ID \<^verbatim>\<open>"listener-n"\<close>,
  a reading of the clock. \<open>None\<close> is the \<^verbatim>\<open>nil\<close> channel. The goroutine that removes
  the listener when the caller's context ends is the separate step \<open>context_done\<close>.
\<close>

definition WatchServices ::
  "DiscoveryService \<Rightarrow> ServiceFilter \<Rightarrow> nat option \<Rightarrow> (go_error + int) \<times> DiscoveryService" where
  "WatchServices d f eventChan =
     (if \<not> initialized d then (Inl ErrNotInitialized, d)
      else if \<not> EnableWatching (disc_config d)
      then (Inl (ErrorString ''service watching is disabled''), d)
      else
        (case eventChan of
           None \<Rightarrow> (Inl (ErrorString ''event channel cannot be nil''), d)
         | Some c \<Rightarrow>
             (case time_Now_UnixNano d of
                (listenerID, d1) \<Rightarrow>
                  (let d2 = d1\<lparr>eventListeners := AList.update listenerID c (eventListeners d1)\<rparr>
                   in (Inr listenerID, replay_services f c (services d2) d2)))))"

definition context_done :: "DiscoveryService \<Rightarrow> int \<Rightarrow> DiscoveryService" where
  "context_done d listenerID = d\<lparr>eventListeners := AList.delete listenerID (eventListeners d)\<rparr>"

definition UnwatchServices :: "DiscoveryService \<Rightarrow> int \<Rightarrow> go_error option \<times> DiscoveryService" where
  "UnwatchServices d listenerID =
     (if \<not> initialized d then (Some ErrNotInitialized, d)
      else
        (case map_of (eventListeners d) listenerID of
           None \<Rightarrow> (Some (ErrorString ''listener not found''), d)
         | Some c \<Rightarrow>
             (None, d\<lparr>eventListeners := AList.delete listenerID (eventListeners d)\<rparr>)))"

text \<open>
  \<^verbatim>\<open>
  if info, ok := d.services[serviceID]; ok {
      oldStatus := info.Status
      info.Status = status
      info.LastUpdated = time.Now().UnixNano() / int64(time.Millisecond)
      d.services[serviceID] = info
      if oldStatus != status {
          d.notifyListeners(ServiceChangeEvent{Type: ServiceChangeTypeUpdated,
              ServiceInfo: info, Timestamp: info.LastUpdated})
          if d.metrics != nil { d.metrics.ConnectionsTotal.Inc() }
      }
  }
  \<close>
\<close>

definition updateServiceStatus :: "DiscoveryService \<Rightarrow> string \<Rightarrow> string \<Rightarrow> DiscoveryService" where
  "updateServiceStatus d serviceID status =
     (case map_of (services d) serviceID of
        None \<Rightarrow> d
      | Some info \<Rightarrow>
          (let oldStatus = Status info;
               (t, d1) = now_millis d;
               info1 = info\<lparr>Status := status, LastUpdated := t\<rparr>;
               d2 = d1\<lparr>services := AList.update serviceID info1 (services d1)\<rparr>
           in if oldStatus \<noteq> status then
                ConnectionsTotal_Inc
                  (notifyListeners
                     \<lparr>ev_Type = ServiceChangeTypeUpdated, ev_ServiceInfo = info1,
                      Timestamp = LastUpdated info1\<rparr> d2)
              else d2))"

text \<open>
  \<^verbatim>\<open>CheckServiceHealth\<close>: the service is read, the checker is asked, and the status is
  updated when the answer and the status read disagree.
\<close>

definition CheckServiceHealth ::
  "DiscoveryService \<Rightarrow> string \<Rightarrow> (go_error + bool) \<times> DiscoveryService" where
  "CheckServiceHealth d serviceID =
     (if \<not> initialized d then (Inl ErrNotInitialized, d)
      else if \<not> EnableHealthChecks (disc_config d)
      then (Inl (ErrorString ''health checks are disabled''), d)
      else
        (case map_of (services d) serviceID of
           None \<Rightarrow> (Inl ErrServiceNotFound, d)
         | Some info \<Rightarrow>
             (case healthChecker d info of
                Inl err \<Rightarrow> (Inl err, d)
              | Inr healthy \<Rightarrow>
                  (Inr healthy,
                   if healthy \<and> Status info \<noteq> ServiceStatusRunning
                   then updateServiceStatus d serviceID ServiceStatusRunning
                   else if \<not> healthy \<and> Status info = ServiceStatusRunning
                   then updateServiceStatus d serviceID ServiceStatusFailed
                   else d))))"

text \<open>
  \<^verbatim>\<open>DefaultHealthChecker.CheckHealth\<close>: the context's error when the timeout comes first
  (\<open>timed_out\<close>), else whether the stored status is \<^verbatim>\<open>running\<close>.
\<close>

definition DefaultHealthChecker_CheckHealth :: "bool \<Rightarrow> ServiceInfo \<Rightarrow> go_error + bool" where
  "DefaultHealthChecker_CheckHealth timed_out serviceInfo =
     (if timed_out then Inl (ErrorString ''context deadline exceeded'')
      else Inr (Status serviceInfo = ServiceStatusRunning))"

text \<open>
  \<^verbatim>\<open>UpdateServiceMetadata\<close> (it does not test \<^verbatim>\<open>initialized\<close>): the given entries are
  written over the stored metadata.
\<close>

definition UpdateServiceMetadata ::
  "DiscoveryService \<Rightarrow> string \<Rightarrow> (string \<times> string) list \<Rightarrow> go_error option \<times> DiscoveryService" where
  "UpdateServiceMetadata d serviceID metadata =
     (case map_of (services d) serviceID of
        None \<Rightarrow> (Some ErrServiceNotFound, d)
      | Some info \<Rightarrow>
          (let info1 = (if Metadata info = [] then info\<lparr>Metadata := metadata\<rparr>
                        else info\<lparr>Metadata :=
                               fold (\<lambda>(k, v). AList.update k v) metadata (Metadata info)\<rparr>);
               (t, d1) = now_millis d;
               info2 = info1\<lparr>LastUpdated := t\<rparr>;
               d2 = d1\<lparr>services := AList.update serviceID info2 (services d1)\<rparr>
           in (None,
               notifyListeners
                 \<lparr>ev_Type = ServiceChangeTypeUpdated, ev_ServiceInfo = info2,
                  Timestamp = LastUpdated info2\<rparr> d2)))"

text \<open>
  \<^verbatim>\<open>DefaultDiscoveryConfig\<close>, \<^verbatim>\<open>NewDiscoveryService\<close> followed by \<^verbatim>\<open>Initialize\<close>, in a world
  with the given channels and clock.
\<close>

definition DefaultDiscoveryConfig :: DiscoveryConfig where
  "DefaultDiscoveryConfig =
     \<lparr>EnableWatching = True, EnableHealthChecks = True,
      DefaultServiceStatus = ServiceStatusRunning\<rparr>"

definition NewDiscoveryService ::
  "DiscoveryConfig \<Rightarrow> BridgeMetrics option \<Rightarrow> (nat \<Rightarrow> Chan) \<Rightarrow> (nat \<Rightarrow> int) \<Rightarrow> DiscoveryService" where
  "NewDiscoveryService cfg m chs clk =
     \<lparr>disc_config = cfg, services = [],
      healthChecker = DefaultHealthChecker_CheckHealth False,
      eventListeners = [], disc_metrics = m, initialized = False,
      chans = chs, clock = clk, ticks = 0\<rparr>"

definition DiscoveryService_Initialize :: "DiscoveryService \<Rightarrow> DiscoveryService" where
  "DiscoveryService_Initialize d = d\<lparr>initialized := True\<rparr>"

text \<open>\<^verbatim>\<open>SetHealthChecker\<close> replaces the pluggable checker.\<close>

definition SetHealthChecker ::
  "DiscoveryService \<Rightarrow> (ServiceInfo \<Rightarrow> go_error + bool) \<Rightarrow> DiscoveryService" where
  "SetHealthChecker d hc = d\<lparr>healthChecker := hc\<rparr>"

text \<open>
  The copies of an event that one notification puts into the channel at address \<open>c\<close>:
  one for every listener registered with this channel, as far as the channel has room.
\<close>

definition deliveries :: "nat \<Rightarrow> ServiceChangeEvent \<Rightarrow> DiscoveryService \<Rightarrow> ServiceChangeEvent list" where
  "deliveries c event d =
     replicate
       (min (capacity (chans d c) - length (buffer (chans d c)))
            (length (filter (\<lambda>l. snd l = c) (eventListeners d))))
       event"

subsection \<open>discovery_service.go: the filter in the words of the spec\<close>

text \<open>
  The spec's words on \<^verbatim>\<open>FindServices\<close>, for comparison with \<^verbatim>\<open>Matches\<close>: every filter
  field that is not empty equals the service's field, and every entry of the filter's
  metadata is an entry of the service's metadata.
\<close>

definition claimed_match :: "ServiceFilter \<Rightarrow> ServiceInfo \<Rightarrow> bool" where
  "claimed_match f s \<longleftrightarrow>
     (f_ServiceType f \<noteq> [] \<longrightarrow> f_ServiceType f = Type s) \<and>
     (f_Version f \<noteq> [] \<longrightarrow> f_Version f = Version s) \<and>
     (f_Name f \<noteq> [] \<longrightarrow> f_Name f = Name s) \<and>
     (f_Address f \<noteq> [] \<longrightarrow> f_Address f = Address s) \<and>
     (\<forall>(k, v) \<in> set (f_Metadata f). map_of (Metadata s) k = Some v)"

subsection \<open>Example inputs\<close>

definition example_pool :: "int \<Rightarrow> ConnectionPool" where
  "example_pool n = \<lparr>target = ''svc:50051'', connections = [], currentIndex = 0, pool_size = n\<rparr>"

definition new_world :: World where
  "new_world = \<lparr>dialled = 0, conn_state = (\<lambda>c. Undialled)\<rparr>"

definition third_dial_fails :: "nat \<Rightarrow> go_error option" where
  "third_dial_fails k = (if k = 2 then Some (ErrorString ''context deadline exceeded'') else None)"

definition three_pool :: ConnectionPool where
  "three_pool = \<lparr>target = ''svc:50051'', connections = [7, 8, 9], currentIndex = 0, pool_size = 3\<rparr>"

definition example_config :: GRPCAdapterConfig where
  "example_config =
     \<lparr>PoolSize = 2, EnableTLS = False, TLSCertFile = [], TLSKeyFile = [], TLSCAFile = []\<rparr>"

definition example_adapter :: "Collector option \<Rightarrow> GRPCAdapter" where
  "example_adapter m = \<lparr>config = example_config, adapter_connections = Map.empty, metrics = m\<rparr>"

definition example_env :: "(nat \<Rightarrow> go_error option) \<Rightarrow> go_error option \<Rightarrow> Env" where
  "example_env d r =
     \<lparr>dial = d, LoadX509KeyPair = (\<lambda>cert key. None), Invoke = (\<lambda>conn mth. r),
      Code_String = (\<lambda>c. ''Code'')\<rparr>"

definition no_dial_succeeds :: "nat \<Rightarrow> go_error option" where
  "no_dial_succeeds k = Some (ErrorString ''context deadline exceeded'')"

definition every_dial_succeeds :: "nat \<Rightarrow> go_error option" where
  "every_dial_succeeds k = None"

definition not_found_status :: grpc_Status where
  "not_found_status =
     \<lparr>st_Code = codes_NotFound, st_Message = ''no such service'',
      st_Details = [ErrorInfo ''MISSING'' ''bridge'' [(''service'', ''echo'')]]\<rparr>"

definition panicking_handler :: "unit UnaryHandler" where
  "panicking_handler a = (Panic ''runtime error: invalid memory address or nil pointer dereference'', a)"

definition example_clock :: "nat \<Rightarrow> int" where
  "example_clock k = 1700000000000000000 + 1000000 * int k"

definition example_chans :: "nat \<Rightarrow> Chan" where
  "example_chans c = \<lparr>capacity = 4, buffer = []\<rparr>"

definition new_registry :: DiscoveryService where
  "new_registry =
     DiscoveryService_Initialize
       (NewDiscoveryService DefaultDiscoveryConfig None example_chans example_clock)"

definition echo_service :: ServiceInfo where
  "echo_service =
     \<lparr>ID = ''svc-1'', Name = ''echo'', Type = ''grpc'', Version = ''v1'',
      Address = ''127.0.0.1'', Port = 9000, Metadata = [(''env'', ''prod'')],
      Status = [], LastUpdated = 0\<rparr>"

definition audit_service :: ServiceInfo where
  "audit_service =
     \<lparr>ID = ''svc-2'', Name = ''audit'', Type = ''grpc'', Version = ''v1'',
      Address = ''127.0.0.2'', Port = 9001, Metadata = [(''tier'', ''batch'')],
      Status = ''starting'', LastUpdated = 0\<rparr>"

definition prod_filter :: ServiceFilter where
  "prod_filter =
     \<lparr>f_ServiceType = [], f_Version = [], f_Name = [], f_Address = [],
      f_Metadata = [(''env'', ''prod'')]\<rparr>"

definition two_services :: DiscoveryService where
  "two_services = snd (RegisterService (snd (RegisterService new_registry echo_service)) audit_service)"

definition watched_registry :: DiscoveryService where
  "watched_registry = snd (WatchServices new_registry prod_filter (Some 0))"

definition echo_moved :: ServiceInfo where
  "echo_moved = echo_service\<lparr>Address := ''127.0.0.9'', Port := 9100, Status := ''draining''\<rparr>"

definition registered_watched :: DiscoveryService where
  "registered_watched = snd (RegisterService watched_registry echo_service)"

definition always_unhealthy :: "ServiceInfo \<Rightarrow> go_error + bool" where
  "always_unhealthy info = Inr False"

definition always_healthy :: "ServiceInfo \<Rightarrow> go_error + bool" where
  "always_healthy info = Inr True"

section \<open>Properties\<close>

lemmas codes_defs =
  codes_OK_def codes_Canceled_def codes_Unknown_def
  codes_InvalidArgument_def codes_DeadlineExceeded_def codes_NotFound_def
  codes_AlreadyExists_def codes_PermissionDenied_def codes_ResourceExhausted_def
  codes_FailedPrecondition_def codes_Aborted_def codes_OutOfRange_def
  codes_Unimplemented_def codes_Internal_def codes_Unavailable_def
  codes_DataLoss_def codes_Unauthenticated_def

declare Initialize_loop.simps [simp del]

subsection \<open>Latency average\<close>

lemma latency_trace_seeded:
  "AverageLatency st \<noteq> 0 \<Longrightarrow> 0 \<notin> set (butlast (latency_trace st ss)) \<Longrightarrow>
   latency_trace st ss = claimed_trace True (AverageLatency st) ss"
proof (induction ss arbitrary: st)
  case Nil
  show ?case by simp
next
  case (Cons s ss)
  let ?st' = "recordLatency st s"
  have avg': "AverageLatency ?st' = ewma_9_1 (AverageLatency st) s"
    using Cons.prems(1) by (simp add: recordLatency_def ewma_9_1_def)
  show ?case
  proof (cases ss)
    case Nil
    then show ?thesis using avg' by simp
  next
    case (Cons s' ss')
    then have ne: "latency_trace ?st' ss \<noteq> []" by simp
    from Cons.prems(2) ne have nz: "AverageLatency ?st' \<noteq> 0"
      and rest: "0 \<notin> set (butlast (latency_trace ?st' ss))"
      by auto
    from Cons.IH [OF nz rest] avg' show ?thesis by simp
  qed
qed

text \<open>
  C8 as stated does not hold: the samples \<open>0\<close> and then \<open>100\<close> on a new adapter
  leave the average \<open>100\<close> (the second sample is stored unchanged, because the average was
  still zero), where the stated rule gives \<open>(0 * 9 + 100) / 10 = 10\<close>.
\<close>

theorem recordLatency_first_sample_counterexample:
  "latency_trace NewBaseAdapter_stats [0, 100] = [0, 100] \<and>
   claimed_trace False 0 [0, 100] = [0, 10] \<and>
   latency_trace NewBaseAdapter_stats [0, 100] \<noteq> claimed_trace False 0 [0, 100]"
  by (simp add: recordLatency_def NewBaseAdapter_stats_def ewma_9_1_def go_div64_def
      signed_divide_int_def)

text \<open>
  C8, amended: after each sample the stored average is \<open>(previous * 9 + sample) / 10\<close> in
  \<^verbatim>\<open>int64\<close> arithmetic, except that every sample recorded while the stored average is
  zero (not only the first one) becomes the average unchanged; no other statistic
  changes. So the stated rule holds along every run in which the average does not
  come back to zero.
\<close>

theorem recordLatency_moving_average:
  "AverageLatency (recordLatency st s) =
     (if AverageLatency st = 0 then s else go_div64 (AverageLatency st * 9 + s) 10)
   \<and> recordLatency st s = st\<lparr>AverageLatency := AverageLatency (recordLatency st s)\<rparr>
   \<and> (0 \<notin> set (butlast (latency_trace NewBaseAdapter_stats ss)) \<longrightarrow>
        latency_trace NewBaseAdapter_stats ss = claimed_trace False 0 ss)"
proof (intro conjI impI)
  show "AverageLatency (recordLatency st s) =
     (if AverageLatency st = 0 then s else go_div64 (AverageLatency st * 9 + s) 10)"
    by (simp add: recordLatency_def)
  show "recordLatency st s = st\<lparr>AverageLatency := AverageLatency (recordLatency st s)\<rparr>"
    by (simp add: recordLatency_def)
next
  assume nz: "0 \<notin> set (butlast (latency_trace NewBaseAdapter_stats ss))"
  show "latency_trace NewBaseAdapter_stats ss = claimed_trace False 0 ss"
  proof (cases ss)
    case Nil
    then show ?thesis by simp
  next
    case (Cons s1 ss1)
    let ?st1 = "recordLatency NewBaseAdapter_stats s1"
    have a1: "AverageLatency ?st1 = s1"
      by (simp add: recordLatency_def NewBaseAdapter_stats_def)
    show ?thesis
    proof (cases ss1)
      case Nil
      with Cons a1 show ?thesis by (simp add: NewBaseAdapter_stats_def)
    next
      case (Cons s2 ss2)
      then have ne: "latency_trace ?st1 ss1 \<noteq> []" by simp
      from nz \<open>ss = s1 # ss1\<close> ne have "AverageLatency ?st1 \<noteq> 0"
        and "0 \<notin> set (butlast (latency_trace ?st1 ss1))"
        by auto
      from latency_trace_seeded [OF this] a1 \<open>ss = s1 # ss1\<close>
      show ?thesis by (simp add: NewBaseAdapter_stats_def)
    qed
  qed
qed

theorem recordLatency_moving_average_witness:
  "AverageLatency (recordLatency (NewBaseAdapter_stats\<lparr>AverageLatency := 100\<rparr>) 0) = 90
   \<and> latency_trace NewBaseAdapter_stats [100, 0, 50] = [100, 90, 86]
   \<and> claimed_trace False 0 [100, 0, 50] = [100, 90, 86]"
proof -
  have tr: "latency_trace NewBaseAdapter_stats [100, 0, 50] = [100, 90, 86]"
    by (simp add: recordLatency_def NewBaseAdapter_stats_def go_div64_def
        signed_divide_int_def)
  have nz: "0 \<notin> set (butlast (latency_trace NewBaseAdapter_stats [100, 0, 50]))"
    unfolding tr by simp
  have step: "AverageLatency (recordLatency (NewBaseAdapter_stats\<lparr>AverageLatency := 100\<rparr>) 0) = 90"
    using recordLatency_moving_average
      [of "NewBaseAdapter_stats\<lparr>AverageLatency := 100\<rparr>" 0 "[100, 0, 50]"]
    by (simp add: go_div64_def signed_divide_int_def)
  from recordLatency_moving_average
      [of "NewBaseAdapter_stats\<lparr>AverageLatency := 100\<rparr>" 0 "[100, 0, 50]"] nz
  have "latency_trace NewBaseAdapter_stats [100, 0, 50] = claimed_trace False 0 [100, 0, 50]"
    by blast
  with tr have cl: "claimed_trace False 0 [100, 0, 50] = [100, 90, 86]"
    by (simp only:)
  from step tr cl show ?thesis by (intro conjI)
qed

subsection \<open>Connection pool: initialisation\<close>

lemma fold_Close_dialled: "dialled (fold ClientConn_Close cs w) = dialled w"
  by (induction cs arbitrary: w) (simp_all add: ClientConn_Close_def)

lemma fold_Close_state:
  "conn_state (fold ClientConn_Close cs w) c = (if c \<in> set cs then Shutdown else conn_state w c)"
  by (induction cs arbitrary: w) (auto simp: ClientConn_Close_def)

lemma Initialize_loop_failure:
  "Initialize_loop d i p w = (Some e, p', w') \<Longrightarrow>
   p' = p\<lparr>connections := []\<rparr> \<and>
   (\<exists>k. int k < pool_size p - i \<and> d (dialled w + k) = Some e \<and>
        (\<forall>j<k. d (dialled w + j) = None) \<and>
        dialled w' = dialled w + k + 1 \<and>
        (\<forall>c. conn_state w' c =
           (if c \<in> set (connections p) \<or> (dialled w \<le> c \<and> c < dialled w + k)
            then Shutdown else conn_state w c)))"
proof (induction d i p w rule: Initialize_loop.induct)
  case (1 d i p w)
  from "1.prems" have lt: "i < pool_size p"
    by (subst (asm) Initialize_loop.simps) (simp split: if_splits)
  show ?case
  proof (cases "d (dialled w)")
    case (Some err)
    with lt "1.prems" have res: "e = err" "p' = p\<lparr>connections := []\<rparr>"
      "w' = fold ClientConn_Close (connections p) (w\<lparr>dialled := Suc (dialled w)\<rparr>)"
      by (subst (asm) Initialize_loop.simps, simp add: grpc_DialContext_def)+
    have "int 0 < pool_size p - i \<and> d (dialled w + 0) = Some e \<and>
        (\<forall>j<0. d (dialled w + j) = None) \<and>
        dialled w' = dialled w + 0 + 1 \<and>
        (\<forall>c. conn_state w' c =
           (if c \<in> set (connections p) \<or> (dialled w \<le> c \<and> c < dialled w + 0)
            then Shutdown else conn_state w c))"
      using lt Some res by (auto simp: fold_Close_dialled fold_Close_state)
    then show ?thesis using res(2) by blast
  next
    case None
    let ?w1 = "w\<lparr>dialled := Suc (dialled w), conn_state := (conn_state w)(dialled w := Ready)\<rparr>"
    let ?p1 = "p\<lparr>connections := connections p @ [dialled w]\<rparr>"
    have dc: "grpc_DialContext d w = (Inr (dialled w), ?w1)"
      using None by (simp add: grpc_DialContext_def)
    from "1.prems" lt dc have rec: "Initialize_loop d (i + 1) ?p1 ?w1 = (Some e, p', w')"
      by (subst (asm) Initialize_loop.simps) simp
    from "1.IH" [OF lt dc [symmetric] refl rec]
    obtain k where p': "p' = ?p1\<lparr>connections := []\<rparr>"
      and k: "int k < pool_size ?p1 - (i + 1)" "d (dialled ?w1 + k) = Some e"
        "\<forall>j<k. d (dialled ?w1 + j) = None" "dialled w' = dialled ?w1 + k + 1"
        "\<forall>c. conn_state w' c =
           (if c \<in> set (connections ?p1) \<or> (dialled ?w1 \<le> c \<and> c < dialled ?w1 + k)
            then Shutdown else conn_state ?w1 c)"
      by blast
    have a: "int (Suc k) < pool_size p - i" using k(1) by simp
    have b: "d (dialled w + Suc k) = Some e" using k(2) by simp
    have c: "\<forall>j<Suc k. d (dialled w + j) = None"
    proof (intro allI impI)
      fix j assume "j < Suc k"
      show "d (dialled w + j) = None"
      proof (cases j)
        case 0 then show ?thesis using None by simp
      next
        case (Suc j')
        with \<open>j < Suc k\<close> k(3) show ?thesis by simp
      qed
    qed
    have dd: "dialled w' = dialled w + Suc k + 1" using k(4) by simp
    have e: "\<forall>c. conn_state w' c =
           (if c \<in> set (connections p) \<or> (dialled w \<le> c \<and> c < dialled w + Suc k)
            then Shutdown else conn_state w c)"
      using k(5) by auto
    from p' a b c dd e show ?thesis by (intro conjI exI [of _ "Suc k"]) simp_all
  qed
qed

lemma Initialize_loop_success:
  "Initialize_loop d i p w = (None, p', w') \<Longrightarrow>
   p' = p\<lparr>connections := connections p @ [dialled w ..< dialled w + nat (pool_size p - i)]\<rparr> \<and>
   (\<forall>j < nat (pool_size p - i). d (dialled w + j) = None) \<and>
   dialled w' = dialled w + nat (pool_size p - i) \<and>
   (\<forall>c. conn_state w' c =
      (if dialled w \<le> c \<and> c < dialled w + nat (pool_size p - i) then Ready else conn_state w c))"
proof (induction d i p w rule: Initialize_loop.induct)
  case (1 d i p w)
  show ?case
  proof (cases "i < pool_size p")
    case False
    with "1.prems" have "p' = p" "w' = w"
      by (subst (asm) Initialize_loop.simps, simp)+
    with False show ?thesis by auto
  next
    case lt: True
    show ?thesis
    proof (cases "d (dialled w)")
      case (Some err)
      with lt "1.prems" show ?thesis
        by (subst (asm) Initialize_loop.simps) (simp add: grpc_DialContext_def)
    next
      case None
      let ?w1 = "w\<lparr>dialled := Suc (dialled w), conn_state := (conn_state w)(dialled w := Ready)\<rparr>"
      let ?p1 = "p\<lparr>connections := connections p @ [dialled w]\<rparr>"
      let ?n = "nat (pool_size p - (i + 1))"
      have dc: "grpc_DialContext d w = (Inr (dialled w), ?w1)"
        using None by (simp add: grpc_DialContext_def)
      from "1.prems" lt dc have rec: "Initialize_loop d (i + 1) ?p1 ?w1 = (None, p', w')"
        by (subst (asm) Initialize_loop.simps) simp
      have n: "nat (pool_size p - i) = Suc ?n" using lt by simp
      from "1.IH" [OF lt dc [symmetric] refl rec]
      have p': "p' = ?p1\<lparr>connections := connections ?p1 @ [dialled ?w1 ..< dialled ?w1 + ?n]\<rparr>"
        and k: "\<forall>j < ?n. d (dialled ?w1 + j) = None" "dialled w' = dialled ?w1 + ?n"
        "\<forall>c. conn_state w' c =
           (if dialled ?w1 \<le> c \<and> c < dialled ?w1 + ?n then Ready else conn_state ?w1 c)"
        by simp_all
      have a: "p' = p\<lparr>connections := connections p @ [dialled w ..< dialled w + Suc ?n]\<rparr>"
        using p' by (simp add: upt_rec [of "dialled w"])
      have c: "\<forall>j<Suc ?n. d (dialled w + j) = None"
      proof (intro allI impI)
        fix j assume "j < Suc ?n"
        show "d (dialled w + j) = None"
        proof (cases j)
          case 0 then show ?thesis using None by simp
        next
          case (Suc j')
          with \<open>j < Suc ?n\<close> k(1) show ?thesis by simp
        qed
      qed
      have dd: "dialled w' = dialled w + Suc ?n" using k(2) by simp
      have e: "\<forall>c. conn_state w' c =
           (if dialled w \<le> c \<and> c < dialled w + Suc ?n then Ready else conn_state w c)"
        using k(3) by auto
      from a c dd e show ?thesis unfolding n by blast
    qed
  qed
qed


text \<open>
  C1. \<^verbatim>\<open>Initialize\<close> on a pool as \<^verbatim>\<open>getConnection\<close> builds it (no connections yet, a size
  that is not negative: \<^verbatim>\<open>make\<close> panics on a negative capacity before \<^verbatim>\<open>Initialize\<close>
  is reached) either succeeds, and the pool holds exactly \<open>size\<close> connections, all open,
  or some dial fails: then the error of the first failing dial is returned, the pool
  holds no connection, every connection opened by this call is shut down and no other
  connection changed.
\<close>

theorem ConnectionPool_Initialize_all_or_nothing:
  assumes fresh: "connections p = []" and size: "0 \<le> pool_size p"
  shows "case ConnectionPool_Initialize d p w of
      (None, p', w') \<Rightarrow>
         int (length (connections p')) = pool_size p \<and>
         p' = p\<lparr>connections := [dialled w ..< dialled w + nat (pool_size p)]\<rparr> \<and>
         (\<forall>c \<in> set (connections p'). conn_state w' c = Ready) \<and>
         (\<forall>c. c \<notin> set (connections p') \<longrightarrow> conn_state w' c = conn_state w c) \<and>
         (\<forall>j < nat (pool_size p). d (dialled w + j) = None)
    | (Some err, p', w') \<Rightarrow>
         connections p' = [] \<and> p' = p\<lparr>connections := []\<rparr> \<and>
         (\<exists>k < nat (pool_size p).
             d (dialled w + k) = Some err \<and> (\<forall>j<k. d (dialled w + j) = None) \<and>
             dialled w' = dialled w + k + 1 \<and>
             (\<forall>c. dialled w \<le> c \<and> c < dialled w + k \<longrightarrow> conn_state w' c = Shutdown) \<and>
             (\<forall>c. \<not> (dialled w \<le> c \<and> c < dialled w + k) \<longrightarrow>
                  conn_state w' c = conn_state w c))"
proof -
  obtain r p' w' where res: "Initialize_loop d 0 p w = (r, p', w')"
    by (cases "Initialize_loop d 0 p w") auto
  show ?thesis
  proof (cases r)
    case None
    from Initialize_loop_success [OF res [unfolded None]] fresh
    have p': "p' = p\<lparr>connections := [dialled w ..< dialled w + nat (pool_size p)]\<rparr>"
      and none: "\<forall>j < nat (pool_size p). d (dialled w + j) = None"
      and st: "\<forall>c. conn_state w' c =
        (if dialled w \<le> c \<and> c < dialled w + nat (pool_size p) then Ready else conn_state w c)"
      by simp_all
    have len: "int (length (connections p')) = pool_size p"
      using p' size by simp
    have ready: "\<forall>c \<in> set (connections p'). conn_state w' c = Ready"
      using p' st by simp
    have others: "\<forall>c. c \<notin> set (connections p') \<longrightarrow> conn_state w' c = conn_state w c"
      using p' st by simp
    from len p' ready others none show ?thesis
      by (simp add: ConnectionPool_Initialize_def res None)
  next
    case (Some err)
    from Initialize_loop_failure [OF res [unfolded Some]] fresh
    obtain k where p': "p' = p\<lparr>connections := []\<rparr>"
      and k: "int k < pool_size p" "d (dialled w + k) = Some err"
        "\<forall>j<k. d (dialled w + j) = None" "dialled w' = dialled w + k + 1"
      and st: "\<forall>c. conn_state w' c =
           (if dialled w \<le> c \<and> c < dialled w + k then Shutdown else conn_state w c)"
      by auto
    have kn: "k < nat (pool_size p)" using k(1) by simp
    have "\<exists>k < nat (pool_size p).
             d (dialled w + k) = Some err \<and> (\<forall>j<k. d (dialled w + j) = None) \<and>
             dialled w' = dialled w + k + 1 \<and>
             (\<forall>c. dialled w \<le> c \<and> c < dialled w + k \<longrightarrow> conn_state w' c = Shutdown) \<and>
             (\<forall>c. \<not> (dialled w \<le> c \<and> c < dialled w + k) \<longrightarrow>
                  conn_state w' c = conn_state w c)"
      using kn k(2,3,4) st by (intro exI [of _ k]) simp
    with p' show ?thesis
      by (simp add: ConnectionPool_Initialize_def res Some)
  qed
qed

theorem ConnectionPool_Initialize_all_or_nothing_witness:
  "connections (example_pool 3) = [] \<and> 0 \<le> pool_size (example_pool 3) \<and>
   fst (ConnectionPool_Initialize third_dial_fails (example_pool 3) new_world)
     = Some (ErrorString ''context deadline exceeded'') \<and>
   connections (fst (snd (ConnectionPool_Initialize third_dial_fails (example_pool 3) new_world))) = [] \<and>
   map (conn_state (snd (snd (ConnectionPool_Initialize third_dial_fails (example_pool 3) new_world))))
     [0, 1, 2] = [Shutdown, Shutdown, Undialled] \<and>
   fst (ConnectionPool_Initialize third_dial_fails (example_pool 2) new_world) = None \<and>
   connections (fst (snd (ConnectionPool_Initialize third_dial_fails (example_pool 2) new_world)))
     = [0, 1] \<and>
   map (conn_state (snd (snd (ConnectionPool_Initialize third_dial_fails (example_pool 2) new_world))))
     [0, 1, 2] = [Ready, Ready, Undialled]"
proof -
  have h3: "connections (example_pool 3) = []" "0 \<le> pool_size (example_pool 3)"
    and h2: "connections (example_pool 2) = []" "0 \<le> pool_size (example_pool 2)"
    by (simp_all add: example_pool_def)
  have e3: "fst (ConnectionPool_Initialize third_dial_fails (example_pool 3) new_world)
     = Some (ErrorString ''context deadline exceeded'')"
    by (simp add: ConnectionPool_Initialize_def Initialize_loop.simps grpc_DialContext_def
        example_pool_def new_world_def third_dial_fails_def)
  have e2: "fst (ConnectionPool_Initialize third_dial_fails (example_pool 2) new_world) = None"
    by (simp add: ConnectionPool_Initialize_def Initialize_loop.simps grpc_DialContext_def
        example_pool_def new_world_def third_dial_fails_def)
  from ConnectionPool_Initialize_all_or_nothing [OF h3, where d = third_dial_fails and w = new_world] e3
  have c3: "connections (fst (snd (ConnectionPool_Initialize third_dial_fails (example_pool 3) new_world))) = []"
    by (auto split: prod.splits option.splits)
  from ConnectionPool_Initialize_all_or_nothing [OF h2, where d = third_dial_fails and w = new_world] e2
  have c2: "connections (fst (snd (ConnectionPool_Initialize third_dial_fails (example_pool 2) new_world))) = [0, 1]"
    by (auto split: prod.splits option.splits simp: new_world_def example_pool_def upt_rec)
  have s3: "map (conn_state (snd (snd (ConnectionPool_Initialize third_dial_fails (example_pool 3) new_world))))
     [0, 1, 2] = [Shutdown, Shutdown, Undialled]"
    by (simp add: ConnectionPool_Initialize_def Initialize_loop.simps grpc_DialContext_def
        example_pool_def new_world_def third_dial_fails_def ClientConn_Close_def)
  have s2: "map (conn_state (snd (snd (ConnectionPool_Initialize third_dial_fails (example_pool 2) new_world))))
     [0, 1, 2] = [Ready, Ready, Undialled]"
    by (simp add: ConnectionPool_Initialize_def Initialize_loop.simps grpc_DialContext_def
        example_pool_def new_world_def third_dial_fails_def ClientConn_Close_def)
  from h3 e3 c3 s3 e2 c2 s2 show ?thesis by (intro conjI)
qed

subsection \<open>Connection pool: round robin\<close>

lemma go_rem_nonneg: "0 \<le> a \<Longrightarrow> 0 < b \<Longrightarrow> go_rem a b = a mod b"
  by (simp add: go_rem_def signed_modulo_int_def sgn_if)

lemma ConnectionPool_Get_in_range:
  assumes "connections p \<noteq> []" "currentIndex p = int m" "m < length (connections p)"
  shows "ConnectionPool_Get p =
     (Return (Inr (connections p ! m)),
      p\<lparr>currentIndex := int (Suc m mod length (connections p))\<rparr>)"
proof -
  have "go_rem (int m + 1) (int (length (connections p))) = int (Suc m mod length (connections p))"
    using assms by (simp add: go_rem_nonneg zmod_int add.commute)
  with assms show ?thesis by (simp add: ConnectionPool_Get_def)
qed

lemma Get_times_round_robin:
  "connections p \<noteq> [] \<Longrightarrow> currentIndex p = int m \<Longrightarrow> m < length (connections p) \<Longrightarrow>
   Get_times n p =
     (map (\<lambda>j. Return (Inr (connections p ! ((m + j) mod length (connections p))))) [0..<n],
      p\<lparr>currentIndex := int ((m + n) mod length (connections p))\<rparr>)"
proof (induction n arbitrary: p m)
  case 0
  then show ?case by simp
next
  case (Suc n)
  let ?N = "length (connections p)"
  let ?p1 = "p\<lparr>currentIndex := int (Suc m mod ?N)\<rparr>"
  have g: "ConnectionPool_Get p = (Return (Inr (connections p ! m)), ?p1)"
    using Suc.prems by (rule ConnectionPool_Get_in_range)
  have N: "0 < ?N" using Suc.prems(1) by simp
  have ih: "Get_times n ?p1 =
     (map (\<lambda>j. Return (Inr (connections ?p1 ! ((Suc m mod ?N + j) mod length (connections ?p1))))) [0..<n],
      ?p1\<lparr>currentIndex := int ((Suc m mod ?N + n) mod length (connections ?p1))\<rparr>)"
    using Suc.prems(1) N by (intro Suc.IH) simp_all
  have m1: "\<And>j. (Suc m mod ?N + j) mod ?N = (m + Suc j) mod ?N"
    by (simp add: mod_add_left_eq)
  have m0: "(m + 0) mod ?N = m" using Suc.prems(3) by simp
  show ?case
    using g ih m0 by (simp add: m1 map_upt_Suc del: upt_Suc)
qed

text \<open>
  C3. On a pool of \<open>N > 0\<close> connections whose cursor is 0, \<open>N + 1\<close> calls of \<^verbatim>\<open>Get\<close>
  return the connections at the indices \<open>0, 1, ..., N - 1, 0\<close>, in this order, each call
  moving the cursor by one modulo \<open>N\<close>; on a pool without connections \<^verbatim>\<open>Get\<close> returns
  the error "no connections available in pool" and leaves the pool as it is.
\<close>

theorem ConnectionPool_Get_round_robin:
  "(connections p \<noteq> [] \<and> currentIndex p = 0 \<longrightarrow>
      fst (Get_times (length (connections p) + 1) p) =
        map (\<lambda>i. Return (Inr (connections p ! i))) ([0 ..< length (connections p)] @ [0]) \<and>
      snd (Get_times (length (connections p) + 1) p) =
        p\<lparr>currentIndex := 1 mod int (length (connections p))\<rparr>) \<and>
   (connections p = [] \<longrightarrow>
      ConnectionPool_Get p = (Return (Inl (ErrorString ''no connections available in pool'')), p))"
proof (intro conjI impI)
  assume "connections p = []"
  then show "ConnectionPool_Get p = (Return (Inl (ErrorString ''no connections available in pool'')), p)"
    by (simp add: ConnectionPool_Get_def)
next
  assume a: "connections p \<noteq> [] \<and> currentIndex p = 0"
  let ?N = "length (connections p)"
  have N: "0 < ?N" using a by simp
  from a N have gt: "Get_times (?N + 1) p =
     (map (\<lambda>j. Return (Inr (connections p ! ((0 + j) mod ?N)))) [0..<?N + 1],
      p\<lparr>currentIndex := int ((0 + (?N + 1)) mod ?N)\<rparr>)"
    by (intro Get_times_round_robin) simp_all
  have "map (\<lambda>j. Return (Inr (connections p ! (j mod ?N)))) [0..<?N + 1]
      = map (\<lambda>i. Return (Inr (connections p ! i)) :: (go_error + nat) outcome) ([0 ..< ?N] @ [0])"
    by simp
  with gt show "fst (Get_times (?N + 1) p) =
        map (\<lambda>i. Return (Inr (connections p ! i))) ([0 ..< ?N] @ [0])"
    by simp
  from gt show "snd (Get_times (?N + 1) p) = p\<lparr>currentIndex := 1 mod int ?N\<rparr>"
    by (simp add: zmod_int)
qed

theorem ConnectionPool_Get_round_robin_witness:
  "connections three_pool \<noteq> [] \<and> currentIndex three_pool = 0 \<and>
   fst (Get_times 4 three_pool) = [Return (Inr 7), Return (Inr 8), Return (Inr 9), Return (Inr 7)] \<and>
   connections (example_pool 3) = [] \<and>
   fst (ConnectionPool_Get (example_pool 3))
     = Return (Inl (ErrorString ''no connections available in pool''))"
proof -
  have a: "connections three_pool \<noteq> [] \<and> currentIndex three_pool = 0"
    by (simp add: three_pool_def)
  have b: "connections (example_pool 3) = []"
    by (simp add: example_pool_def)
  from ConnectionPool_Get_round_robin [of three_pool] a
  have inst: "fst (Get_times (length (connections three_pool) + 1) three_pool) =
        map (\<lambda>i. Return (Inr (connections three_pool ! i)))
          ([0 ..< length (connections three_pool)] @ [0])"
    by blast
  have l: "length (connections three_pool) + 1 = 4"
    by (simp add: three_pool_def)
  have r: "map (\<lambda>i. Return (Inr (connections three_pool ! i)) :: (go_error + nat) outcome)
          ([0 ..< length (connections three_pool)] @ [0])
        = [Return (Inr 7), Return (Inr 8), Return (Inr 9), Return (Inr 7)]"
    by (simp add: three_pool_def upt_rec)
  from inst have c: "fst (Get_times 4 three_pool)
      = [Return (Inr 7), Return (Inr 8), Return (Inr 9), Return (Inr 7)]"
    unfolding l r .
  from ConnectionPool_Get_round_robin [of "example_pool 3"] b
  have d: "fst (ConnectionPool_Get (example_pool 3))
     = Return (Inl (ErrorString ''no connections available in pool''))"
    by simp
  from a b c d show ?thesis by (intro conjI) simp_all
qed

subsection \<open>Errors returned by Call\<close>

lemmas eval_Call =
  Call_def getConnection_def ConnectionPool_Initialize_def Initialize_loop.simps
  grpc_DialContext_def ConnectionPool_Get_def ClientConn_Close_def
  example_config_def example_adapter_def example_env_def new_world_def
  no_dial_succeeds_def every_dial_succeeds_def ErrConnectionFailed_def
  mapGRPCError_def go_rem_def signed_modulo_int_def Let_def
  grpcStatusCode_def metrics_IncCounter_def metrics_ObserveHistogram_def

text \<open>
  C4 as stated does not hold on two paths of \<^verbatim>\<open>Call\<close>. When no connection can be
  had (here: the dial times out) the caller gets \<^verbatim>\<open>fmt.Errorf("%w: %v", ErrConnectionFailed, err)\<close>,
  which is no \<^verbatim>\<open>*BridgeError\<close>. When \<^verbatim>\<open>conn.Invoke\<close> fails with an error that carries no
  gRPC status, \<^verbatim>\<open>mapGRPCError\<close> returns \<^verbatim>\<open>errors.New("unknown error")\<close>, which is none
  either.
\<close>

theorem Call_unmapped_errors_counterexample:
  "fst (Call (example_env no_dial_succeeds None) (example_adapter None) new_world
          ''svc:50051'' ''/bridge.Bridge/SendMessage'')
     = Return (Some (Errorf_w_v ErrConnectionFailed
         (Errorf_w ''failed to initialize connection pool''
            (ErrorString ''context deadline exceeded'')))) \<and>
   \<not> is_canonical (Errorf_w_v ErrConnectionFailed
         (Errorf_w ''failed to initialize connection pool''
            (ErrorString ''context deadline exceeded''))) \<and>
   fst (Call (example_env every_dial_succeeds (Some (ErrorString ''EOF''))) (example_adapter None)
          new_world ''svc:50051'' ''/bridge.Bridge/SendMessage'')
     = Return (Some (ErrorString ''unknown error'')) \<and>
   \<not> is_canonical (ErrorString ''unknown error'')"
  by (simp add: eval_Call)

lemma kinds_mem:
  "''INVALID_ARGUMENT'' \<in> set canonical_kinds"
  "''NOT_FOUND'' \<in> set canonical_kinds"
  "''ALREADY_EXISTS'' \<in> set canonical_kinds"
  "''PERMISSION_DENIED'' \<in> set canonical_kinds"
  "''RESOURCE_EXHAUSTED'' \<in> set canonical_kinds"
  "''FAILED_PRECONDITION'' \<in> set canonical_kinds"
  "''ABORTED'' \<in> set canonical_kinds"
  "''OUT_OF_RANGE'' \<in> set canonical_kinds"
  "''UNIMPLEMENTED'' \<in> set canonical_kinds"
  "''INTERNAL'' \<in> set canonical_kinds"
  "''UNAVAILABLE'' \<in> set canonical_kinds"
  "''DATA_LOSS'' \<in> set canonical_kinds"
  "''UNAUTHENTICATED'' \<in> set canonical_kinds"
  "''DEADLINE_EXCEEDED'' \<in> set canonical_kinds"
  "''CANCELED'' \<in> set canonical_kinds"
  "''UNKNOWN'' \<in> set canonical_kinds"
  unfolding canonical_kinds_def by simp_all

lemma NewBridgeError_sel:
  "Code (NewBridgeError k m d) = k" "Message (NewBridgeError k m d) = m"
  "Details (NewBridgeError k m d) = d"
  by (simp_all add: NewBridgeError_def)



lemma if_cases_intro: "(c \<Longrightarrow> P x) \<Longrightarrow> (\<not> c \<Longrightarrow> P y) \<Longrightarrow> P (if c then x else y)"
  by simp

lemma mapGRPCError_switch_canonical:
  "Code (mapGRPCError_switch st) \<in> set canonical_kinds \<and>
   Message (mapGRPCError_switch st) = st_Message st \<and>
   Details (mapGRPCError_switch st) = bridge_details (int (st_Code st)) st"
proof -
  define Q where "Q b \<longleftrightarrow> Code b \<in> set canonical_kinds \<and> Message b = st_Message st \<and>
       Details b = bridge_details (int (st_Code st)) st" for b :: BridgeError
  have leaf: "\<And>k c. k \<in> set canonical_kinds \<Longrightarrow> st_Code st = c \<Longrightarrow>
     Q (NewBridgeError k (st_Message st) (bridge_details (int c) st))"
    by (simp add: Q_def NewBridgeError_sel)
  have "Q (mapGRPCError_switch st)"
    unfolding mapGRPCError_switch_def
    apply (rule if_cases_intro [where P = Q], rule leaf, rule kinds_mem, assumption)+
    apply (rule leaf, rule kinds_mem, rule refl)
    done
  then show ?thesis unfolding Q_def .
qed

lemma mapGRPCError_status:
  "\<exists>b. mapGRPCError (Some (StatusError st)) = Some (BridgeErr b) \<and>
       Code b \<in> set canonical_kinds \<and> Message b = st_Message st \<and>
       Details b = bridge_details (int (st_Code st)) st"
  using mapGRPCError_switch_canonical [of st] by (simp add: mapGRPCError_def)

lemma status_FromError_Some: "status_FromError e = Some st \<Longrightarrow> e = StatusError st"
  by (cases e) simp_all

text \<open>
  C4, amended. A failure to obtain a connection is returned as an error that wraps
  \<^verbatim>\<open>ErrConnectionFailed\<close> and is not of the taxonomy. When a connection is obtained and
  the invocation fails with an error that carries a gRPC status, the caller gets a
  \<^verbatim>\<open>*BridgeError\<close> whose kind is one of the sixteen canonical kinds, with the message of
  the status, its code and its extracted details. When the invocation succeeds,
  \<^verbatim>\<open>Call\<close> returns \<^verbatim>\<open>nil\<close>.
\<close>

theorem Call_error_mapping:
  "(getConnection env a w tgt = (Return (Inl err), a1, w1) \<longrightarrow>
      fst (Call env a w tgt mth) = Return (Some (Errorf_w_v ErrConnectionFailed err)) \<and>
      \<not> is_canonical (Errorf_w_v ErrConnectionFailed err)) \<and>
   (getConnection env a w tgt = (Return (Inr conn), a1, w1) \<and>
    Invoke env conn mth = Some e \<and> status_FromError e = Some st \<longrightarrow>
      (\<exists>b. fst (Call env a w tgt mth) = Return (Some (BridgeErr b)) \<and>
           is_canonical (BridgeErr b) \<and>
           Code b \<in> set canonical_kinds \<and>
           Message b = st_Message st \<and>
           Details b = [(''code'', VInt (int (st_Code st))),
                        (''details'', VDetails (extractErrorDetails st))])) \<and>
   (getConnection env a w tgt = (Return (Inr conn), a1, w1) \<and>
    Invoke env conn mth = None \<longrightarrow>
      fst (Call env a w tgt mth) = Return None)"
proof (intro conjI impI)
  assume "getConnection env a w tgt = (Return (Inl err), a1, w1)"
  then show "fst (Call env a w tgt mth) = Return (Some (Errorf_w_v ErrConnectionFailed err))"
    by (simp add: Call_def)
  show "\<not> is_canonical (Errorf_w_v ErrConnectionFailed err)" by simp
next
  assume h: "getConnection env a w tgt = (Return (Inr conn), a1, w1) \<and>
    Invoke env conn mth = Some e \<and> status_FromError e = Some st"
  then have e: "e = StatusError st" by (simp add: status_FromError_Some)
  from h e have c: "fst (Call env a w tgt mth) = Return (mapGRPCError (Some (StatusError st)))"
    by (simp add: Call_def Let_def)
  obtain b where b: "mapGRPCError (Some (StatusError st)) = Some (BridgeErr b)"
    "Code b \<in> set canonical_kinds" "Message b = st_Message st"
    "Details b = bridge_details (int (st_Code st)) st"
    using mapGRPCError_status by blast
  show "\<exists>b. fst (Call env a w tgt mth) = Return (Some (BridgeErr b)) \<and>
           is_canonical (BridgeErr b) \<and>
           Code b \<in> set canonical_kinds \<and>
           Message b = st_Message st \<and>
           Details b = [(''code'', VInt (int (st_Code st))),
                        (''details'', VDetails (extractErrorDetails st))]"
    using b c by (intro exI [of _ b]) (simp add: bridge_details_def)
next
  assume "getConnection env a w tgt = (Return (Inr conn), a1, w1) \<and>
    Invoke env conn mth = None"
  then show "fst (Call env a w tgt mth) = Return None"
    by (simp add: Call_def Let_def mapGRPCError_def)
qed


theorem Call_error_mapping_witness:
  "fst (Call (example_env no_dial_succeeds None) (example_adapter None) new_world
          ''svc:50051'' ''/bridge.Bridge/SendMessage'')
     = Return (Some (Errorf_w_v ErrConnectionFailed
         (Errorf_w ''failed to initialize connection pool''
            (ErrorString ''context deadline exceeded'')))) \<and>
   fst (Call (example_env every_dial_succeeds (Some (StatusError not_found_status)))
          (example_adapter None) new_world ''svc:50051'' ''/bridge.Bridge/SendMessage'')
     = Return (Some (BridgeErr
         \<lparr>Code = ''NOT_FOUND'', Message = ''no such service'',
          Details = [(''code'', VInt 5),
            (''details'', VDetails [[(''type'', VString ''ErrorInfo''),
               (''reason'', VString ''MISSING''), (''domain'', VString ''bridge''),
               (''metadata'', VStringMap [(''service'', ''echo'')])]])]\<rparr>)) \<and>
   fst (Call (example_env every_dial_succeeds None)
          (example_adapter None) new_world ''svc:50051'' ''/bridge.Bridge/SendMessage'')
     = Return None"
proof -
  let ?a = "example_adapter None"
  let ?t = "''svc:50051''" and ?m = "''/bridge.Bridge/SendMessage''"
  let ?err = "Errorf_w ''failed to initialize connection pool''
            (ErrorString ''context deadline exceeded'')"
  have g1: "fst (getConnection (example_env no_dial_succeeds None) ?a new_world ?t)
      = Return (Inl ?err)"
    by (simp add: eval_Call)
  obtain a1 w1 where g1': "getConnection (example_env no_dial_succeeds None) ?a new_world ?t
      = (Return (Inl ?err), a1, w1)"
    using g1 by (cases "getConnection (example_env no_dial_succeeds None) ?a new_world ?t") simp
  from Call_error_mapping
    [where env = "example_env no_dial_succeeds None" and a = ?a and w = new_world and tgt = ?t
       and err = ?err and ?a1.0 = a1 and ?w1.0 = w1 and mth = ?m] g1'
  have c1: "fst (Call (example_env no_dial_succeeds None) ?a new_world ?t ?m)
      = Return (Some (Errorf_w_v ErrConnectionFailed ?err))"
    by blast
  let ?e2 = "example_env every_dial_succeeds (Some (StatusError not_found_status))"
  have g2: "fst (getConnection ?e2 ?a new_world ?t) = Return (Inr 0)"
    by (simp add: eval_Call)
  obtain a2 w2 where g2': "getConnection ?e2 ?a new_world ?t = (Return (Inr 0), a2, w2)"
    using g2 by (cases "getConnection ?e2 ?a new_world ?t") simp
  have i2: "Invoke ?e2 0 ?m = Some (StatusError not_found_status)"
    by (simp add: example_env_def)
  from Call_error_mapping
    [where env = ?e2 and a = ?a and w = new_world and tgt = ?t and conn = 0
       and ?a1.0 = a2 and ?w1.0 = w2 and mth = ?m and e = "StatusError not_found_status"
       and st = not_found_status] g2' i2
  obtain b where b: "fst (Call ?e2 ?a new_world ?t ?m) = Return (Some (BridgeErr b))"
    "Code b \<in> set canonical_kinds" "Message b = st_Message not_found_status"
    "Details b = [(''code'', VInt (int (st_Code not_found_status))),
                        (''details'', VDetails (extractErrorDetails not_found_status))]"
    by auto
  have k: "fst (Call ?e2 ?a new_world ?t ?m) = Return (Some (BridgeErr
         \<lparr>Code = ''NOT_FOUND'', Message = ''no such service'',
          Details = [(''code'', VInt 5),
            (''details'', VDetails [[(''type'', VString ''ErrorInfo''),
               (''reason'', VString ''MISSING''), (''domain'', VString ''bridge''),
               (''metadata'', VStringMap [(''service'', ''echo'')])]])]\<rparr>))"
    by (simp add: eval_Call not_found_status_def mapGRPCError_switch_def codes_defs
        NewBridgeError_def bridge_details_def extractErrorDetails_def)
  let ?e3 = "example_env every_dial_succeeds None"
  have g3: "fst (getConnection ?e3 ?a new_world ?t) = Return (Inr 0)"
    by (simp add: eval_Call)
  obtain a3 w3 where g3': "getConnection ?e3 ?a new_world ?t = (Return (Inr 0), a3, w3)"
    using g3 by (cases "getConnection ?e3 ?a new_world ?t") simp
  have i3: "Invoke ?e3 0 ?m = None"
    by (simp add: example_env_def)
  from Call_error_mapping
    [where env = ?e3 and a = ?a and w = new_world and tgt = ?t and conn = 0
       and ?a1.0 = a3 and ?w1.0 = w3 and mth = ?m] g3' i3
  have c3: "fst (Call ?e3 ?a new_world ?t ?m) = Return None"
    by blast
  from c1 k c3 show ?thesis by (intro conjI)
qed

subsection \<open>Recovery from a panicking handler\<close>

lemma counter_value_IncCounter:
  "counter_value name (metrics_IncCounter n labels m) =
     counter_value name m + (if m \<noteq> None \<and> n = name then 1 else 0)"
  by (cases m) (simp_all add: counter_value_def metrics_IncCounter_def)

lemma counter_value_ObserveHistogram:
  "counter_value name (metrics_ObserveHistogram n labels m) = counter_value name m"
  by (cases m) (simp_all add: counter_value_def metrics_ObserveHistogram_def)

lemma metrics_IncCounter_None: "metrics_IncCounter n labels None = None"
  by (simp add: metrics_IncCounter_def)

lemma recoveryInterceptor_never_panics:
  "fst (recoveryInterceptor m handler a) \<noteq> Panic v"
  by (simp add: recoveryInterceptor_def split: prod.splits outcome.splits)

lemma unary_chain_panic:
  assumes "handler a = (Panic v, a1)"
  shows "unary_chain env m handler a =
    (Return (None, Some (status_Errorf codes_Internal ''internal error'')),
     a1\<lparr>metrics :=
        metrics_IncCounter ''grpc.requests_total'' [(''method'', m)]
          (metrics_IncCounter ''grpc.errors_total''
             [(''method'', m),
              (''code'', grpcStatusCode env (Some (status_Errorf codes_Internal ''internal error'')))]
             (metrics_ObserveHistogram ''grpc.request_duration_seconds'' [(''method'', m)]
                (metrics_IncCounter ''grpc.panics_total'' [(''method'', m)] (metrics a1))))\<rparr>)"
  using assms
  by (simp add: unary_chain_def loggingInterceptor_def metricsInterceptor_def
      recoveryInterceptor_def timeoutInterceptor_def Let_def)

lemma unary_chain_never_panics:
  "fst (unary_chain env m handler a) \<noteq> Panic v"
proof -
  obtain r a1 where h: "handler a = (r, a1)" by (cases "handler a") auto
  show ?thesis
  proof (cases r)
    case (Return x)
    with h show ?thesis
      by (cases x) (simp add: unary_chain_def loggingInterceptor_def metricsInterceptor_def
          recoveryInterceptor_def timeoutInterceptor_def Let_def)
  next
    case (Panic v')
    with h unary_chain_panic [of handler a v' a1 env m] show ?thesis by simp
  qed
qed

text \<open>
  C5 as stated does not hold when the adapter has no metrics collector
  (\<^verbatim>\<open>a.metrics == nil\<close>, which \<^verbatim>\<open>NewGRPCAdapter\<close> accepts): the panic is recovered and the
  caller gets the \<^verbatim>\<open>Internal\<close> error, but the increment of \<^verbatim>\<open>grpc.panics_total\<close> is
  behind \<^verbatim>\<open>if a.metrics != nil\<close> and nothing is counted.
\<close>

theorem recoveryInterceptor_no_collector_counterexample:
  "fst (recoveryInterceptor ''/bridge.Bridge/SendMessage'' panicking_handler (example_adapter None))
     = Return (None, Some (status_Errorf codes_Internal ''internal error'')) \<and>
   metrics (snd (recoveryInterceptor ''/bridge.Bridge/SendMessage'' panicking_handler
     (example_adapter None))) = None \<and>
   counter_value ''grpc.panics_total''
     (metrics (snd (recoveryInterceptor ''/bridge.Bridge/SendMessage'' panicking_handler
        (example_adapter None))))
     \<noteq> counter_value ''grpc.panics_total'' (metrics (example_adapter None)) + 1"
  by (simp add: recoveryInterceptor_def panicking_handler_def example_adapter_def
      metrics_IncCounter_def counter_value_def)

text \<open>
  C5, amended. When the handler panics during a unary call, the recovery interceptor
  returns \<^verbatim>\<open>(nil, status Internal "internal error")\<close> instead of panicking, and so does
  the whole chain of interceptors; when the adapter has a metrics collector, the
  counter \<^verbatim>\<open>grpc.panics_total\<close> is incremented exactly once for the call (with no
  collector nothing is counted). Whatever the handler does, neither the recovery
  interceptor nor the chain panics, so the server goes on serving.
\<close>

theorem recoveryInterceptor_panic:
  "(handler a = (Panic v, a1) \<longrightarrow>
      fst (recoveryInterceptor m handler a)
        = Return (None, Some (status_Errorf codes_Internal ''internal error'')) \<and>
      (metrics a1 \<noteq> None \<longrightarrow>
         counter_value ''grpc.panics_total'' (metrics (snd (recoveryInterceptor m handler a)))
           = counter_value ''grpc.panics_total'' (metrics a1) + 1) \<and>
      (metrics a1 = None \<longrightarrow> metrics (snd (recoveryInterceptor m handler a)) = None) \<and>
      config (snd (recoveryInterceptor m handler a)) = config a1 \<and>
      adapter_connections (snd (recoveryInterceptor m handler a)) = adapter_connections a1 \<and>
      fst (unary_chain env m handler a)
        = Return (None, Some (status_Errorf codes_Internal ''internal error'')) \<and>
      (metrics a1 \<noteq> None \<longrightarrow>
         counter_value ''grpc.panics_total'' (metrics (snd (unary_chain env m handler a)))
           = counter_value ''grpc.panics_total'' (metrics a1) + 1)) \<and>
   fst (recoveryInterceptor m handler a) \<noteq> Panic v' \<and>
   fst (unary_chain env m handler a) \<noteq> Panic v'"
proof (intro conjI impI)
  show "fst (recoveryInterceptor m handler a) \<noteq> Panic v'"
    by (rule recoveryInterceptor_never_panics)
  show "fst (unary_chain env m handler a) \<noteq> Panic v'"
    by (rule unary_chain_never_panics)
next
  assume h: "handler a = (Panic v, a1)"
  then have r: "recoveryInterceptor m handler a =
     (Return (None, Some (status_Errorf codes_Internal ''internal error'')),
      a1\<lparr>metrics := metrics_IncCounter ''grpc.panics_total'' [(''method'', m)] (metrics a1)\<rparr>)"
    by (simp add: recoveryInterceptor_def)
  from r show "fst (recoveryInterceptor m handler a)
        = Return (None, Some (status_Errorf codes_Internal ''internal error''))"
    by simp
  from r show "config (snd (recoveryInterceptor m handler a)) = config a1" by simp
  from r show "adapter_connections (snd (recoveryInterceptor m handler a)) = adapter_connections a1"
    by simp
  from unary_chain_panic [where handler = handler and a = a and env = env and m = m, OF h]
  show "fst (unary_chain env m handler a)
        = Return (None, Some (status_Errorf codes_Internal ''internal error''))"
    by simp
  {
    assume "metrics a1 = None"
    with r show "metrics (snd (recoveryInterceptor m handler a)) = None"
      by (simp add: metrics_IncCounter_None)
  }
  {
    assume c: "metrics a1 \<noteq> None"
    with r show "counter_value ''grpc.panics_total'' (metrics (snd (recoveryInterceptor m handler a)))
           = counter_value ''grpc.panics_total'' (metrics a1) + 1"
      by (simp add: counter_value_IncCounter)
    from c unary_chain_panic [where handler = handler and a = a and env = env and m = m, OF h]
    show "counter_value ''grpc.panics_total'' (metrics (snd (unary_chain env m handler a)))
           = counter_value ''grpc.panics_total'' (metrics a1) + 1"
      by (simp add: counter_value_IncCounter counter_value_ObserveHistogram)
  }
qed

theorem recoveryInterceptor_panic_witness:
  "panicking_handler (example_adapter (Some []))
     = (Panic ''runtime error: invalid memory address or nil pointer dereference'',
        example_adapter (Some [])) \<and>
   fst (recoveryInterceptor ''/bridge.Bridge/SendMessage'' panicking_handler (example_adapter (Some [])))
     = Return (None, Some (status_Errorf codes_Internal ''internal error'')) \<and>
   counter_value ''grpc.panics_total''
     (metrics (snd (recoveryInterceptor ''/bridge.Bridge/SendMessage'' panicking_handler
        (example_adapter (Some []))))) = 1 \<and>
   fst (unary_chain (example_env every_dial_succeeds None) ''/bridge.Bridge/SendMessage''
          panicking_handler (example_adapter (Some [])))
     = Return (None, Some (status_Errorf codes_Internal ''internal error'')) \<and>
   counter_value ''grpc.panics_total''
     (metrics (snd (unary_chain (example_env every_dial_succeeds None)
        ''/bridge.Bridge/SendMessage'' panicking_handler (example_adapter (Some []))))) = 1"
proof -
  have h: "panicking_handler (example_adapter (Some []))
     = (Panic ''runtime error: invalid memory address or nil pointer dereference'',
        example_adapter (Some []))"
    by (simp add: panicking_handler_def)
  have m: "metrics (example_adapter (Some [])) \<noteq> None"
    and z: "counter_value ''grpc.panics_total'' (metrics (example_adapter (Some []))) = 0"
    by (simp_all add: example_adapter_def counter_value_def)
  from recoveryInterceptor_panic
    [where handler = panicking_handler and a = "example_adapter (Some [])"
       and ?a1.0 = "example_adapter (Some [])" and m = "''/bridge.Bridge/SendMessage''"
       and env = "example_env every_dial_succeeds None"] h m z
  show ?thesis by simp
qed

subsection \<open>Filtered lookup\<close>

lemma metadata_matches_iff:
  "metadata_matches fm sm \<longleftrightarrow> (\<forall>(k, v) \<in> set fm. map_of sm k = Some v)"
  by (induction fm sm rule: metadata_matches.induct) (auto split: option.splits)

lemma Matches_iff: "Matches f s \<longleftrightarrow> claimed_match f s"
  by (auto simp: Matches_def claimed_match_def metadata_matches_iff)

lemma claimed_match_metadata:
  "claimed_match f s \<Longrightarrow> (k, v) \<in> set (f_Metadata f) \<Longrightarrow> map_of (Metadata s) k = Some v"
  by (auto simp: claimed_match_def)

text \<open>
  C7. On an initialised registry \<^verbatim>\<open>FindServices\<close> returns exactly the registered services
  that the filter matches: every filter field (type, version, name, address) that is
  not empty equals the service's field, and every key of the filter's metadata is
  present in the service's metadata with the same value. A service that lacks a key of
  the filter's metadata is not returned.
\<close>

theorem FindServices_matches:
  "(initialized d \<longrightarrow>
     (\<exists>rs. FindServices d f = Inr rs \<and>
        (\<forall>s. s \<in> set rs \<longleftrightarrow> s \<in> snd ` set (services d) \<and> claimed_match f s) \<and>
        (\<forall>s k v. (k, v) \<in> set (f_Metadata f) \<and> map_of (Metadata s) k = None \<longrightarrow> s \<notin> set rs)))
   \<and> Matches f s = claimed_match f s"
proof (intro conjI impI)
  show "Matches f s = claimed_match f s" by (rule Matches_iff)
next
  assume i: "initialized d"
  let ?rs = "filter (Matches f) (map snd (services d))"
  have a: "FindServices d f = Inr ?rs" using i by (simp add: FindServices_def)
  have b: "\<forall>s. s \<in> set ?rs \<longleftrightarrow> s \<in> snd ` set (services d) \<and> claimed_match f s"
    by (auto simp: Matches_iff)
  have c: "\<forall>s k v. (k, v) \<in> set (f_Metadata f) \<and> map_of (Metadata s) k = None \<longrightarrow> s \<notin> set ?rs"
    using claimed_match_metadata by (fastforce simp: Matches_iff)
  from a b c show "\<exists>rs. FindServices d f = Inr rs \<and>
        (\<forall>s. s \<in> set rs \<longleftrightarrow> s \<in> snd ` set (services d) \<and> claimed_match f s) \<and>
        (\<forall>s k v. (k, v) \<in> set (f_Metadata f) \<and> map_of (Metadata s) k = None \<longrightarrow> s \<notin> set rs)"
    by blast
qed

lemmas eval_registry =
  new_registry_def DiscoveryService_Initialize_def NewDiscoveryService_def
  DefaultDiscoveryConfig_def RegisterService_def now_millis_def notifyListeners_def
  ConnectionsTotal_Inc_def ConnectionFailures_Inc_def example_clock_def
  echo_service_def audit_service_def ServiceStatusRunning_def ServiceStatusFailed_def
  go_div_def signed_divide_int_def Let_def

lemma two_services_services:
  "services two_services =
     [(''svc-1'', echo_service\<lparr>Status := ''running'', LastUpdated := 1700000000000\<rparr>),
      (''svc-2'', audit_service\<lparr>LastUpdated := 1700000000002\<rparr>)]"
  and two_services_initialized: "initialized two_services"
  by (simp_all add: two_services_def eval_registry)

theorem FindServices_matches_witness:
  "initialized two_services \<and>
   FindServices two_services prod_filter
     = Inr [echo_service\<lparr>Status := ''running'', LastUpdated := 1700000000000\<rparr>] \<and>
   claimed_match prod_filter (echo_service\<lparr>Status := ''running'', LastUpdated := 1700000000000\<rparr>) \<and>
   \<not> claimed_match prod_filter (audit_service\<lparr>LastUpdated := 1700000000002\<rparr>)"
proof -
  let ?e = "echo_service\<lparr>Status := ''running'', LastUpdated := 1700000000000\<rparr>"
  let ?a = "audit_service\<lparr>LastUpdated := 1700000000002\<rparr>"
  have m1: "claimed_match prod_filter ?e"
    by (simp add: claimed_match_def prod_filter_def echo_service_def)
  have m2: "\<not> claimed_match prod_filter ?a"
    by (simp add: claimed_match_def prod_filter_def audit_service_def)
  from FindServices_matches [of two_services prod_filter ?e] two_services_initialized
  obtain rs where rs: "FindServices two_services prod_filter = Inr rs"
    and mem: "\<forall>s. s \<in> set rs \<longleftrightarrow> s \<in> snd ` set (services two_services) \<and> claimed_match prod_filter s"
    and me: "Matches prod_filter ?e = claimed_match prod_filter ?e"
    by blast
  from FindServices_matches [of two_services prod_filter ?a]
  have ma: "Matches prod_filter ?a = claimed_match prod_filter ?a" by (rule conjunct2)
  have "rs = filter (Matches prod_filter) (map snd (services two_services))"
    using rs two_services_initialized by (simp add: FindServices_def)
  with me ma m1 m2 have "rs = [?e]"
    by (simp add: two_services_services)
  with rs m1 m2 two_services_initialized show ?thesis by simp
qed

subsection \<open>Notification and registration\<close>

lemma min_room: "(b::nat) < a \<Longrightarrow> min (a - b) (Suc n) = Suc (min (a - Suc b) n)"
  by (auto simp: min_def)

lemma fold_try_send:
  "buffer (fold (\<lambda>(lid, listener). try_send listener ev) ls st c) =
     buffer (st c) @
       replicate (min (capacity (st c) - length (buffer (st c)))
                      (length (filter (\<lambda>l. snd l = c) ls))) ev
   \<and> capacity (fold (\<lambda>(lid, listener). try_send listener ev) ls st c) = capacity (st c)"
proof (induction ls arbitrary: st)
  case Nil
  show ?case by simp
next
  case (Cons l ls)
  obtain lid c0 where l: "l = (lid, c0)" by (cases l) auto
  let ?st1 = "try_send c0 ev st"
  note ih = Cons.IH [of ?st1]
  show ?case
  proof (cases "c0 = c")
    case False
    then have "?st1 c = st c" by (simp add: try_send_def)
    with ih False l show ?thesis by simp
  next
    case True
    show ?thesis
    proof (cases "length (buffer (st c)) < capacity (st c)")
      case room: True
      then have s1: "buffer (?st1 c) = buffer (st c) @ [ev]" "capacity (?st1 c) = capacity (st c)"
        using True by (simp_all add: try_send_def)
      have m: "min (capacity (st c) - length (buffer (st c)))
                 (Suc (length (filter (\<lambda>l. snd l = c) ls)))
            = Suc (min (capacity (st c) - Suc (length (buffer (st c))))
                 (length (filter (\<lambda>l. snd l = c) ls)))"
        using room min_room [of "length (buffer (st c))" "capacity (st c)"] by simp
      from ih s1 True l show ?thesis
        by (simp add: m replicate_app_Cons_same)
    next
      case False
      then have "?st1 = st" using True by (simp add: try_send_def)
      with ih True l False show ?thesis by simp
    qed
  qed
qed

lemma notifyListeners_buffer:
  "buffer (chans (notifyListeners ev d) c) = buffer (chans d c) @ deliveries c ev d"
  and notifyListeners_capacity:
  "capacity (chans (notifyListeners ev d) c) = capacity (chans d c)"
  using fold_try_send [of ev "eventListeners d" "chans d" c]
  by (simp_all add: notifyListeners_def deliveries_def)

lemma deliveries_cong:
  "chans d' = chans d \<Longrightarrow> eventListeners d' = eventListeners d \<Longrightarrow>
   deliveries c ev d' = deliveries c ev d"
  by (simp add: deliveries_def)

lemma deliveries_single:
  "filter (\<lambda>l. snd l = c) (eventListeners d) = [l] \<Longrightarrow>
   length (buffer (chans d c)) < capacity (chans d c) \<Longrightarrow>
   deliveries c ev d = [ev]"
  using min_room [of "length (buffer (chans d c))" "capacity (chans d c)" 0]
  by (simp add: deliveries_def)

lemma notifyListeners_fields [simp]:
  "services (notifyListeners ev d) = services d"
  "eventListeners (notifyListeners ev d) = eventListeners d"
  "initialized (notifyListeners ev d) = initialized d"
  "disc_config (notifyListeners ev d) = disc_config d"
  "clock (notifyListeners ev d) = clock d"
  "ticks (notifyListeners ev d) = ticks d"
  "healthChecker (notifyListeners ev d) = healthChecker d"
  by (simp_all add: notifyListeners_def)

lemma ConnectionsTotal_Inc_fields [simp]:
  "services (ConnectionsTotal_Inc d) = services d"
  "eventListeners (ConnectionsTotal_Inc d) = eventListeners d"
  "initialized (ConnectionsTotal_Inc d) = initialized d"
  "disc_config (ConnectionsTotal_Inc d) = disc_config d"
  "clock (ConnectionsTotal_Inc d) = clock d"
  "ticks (ConnectionsTotal_Inc d) = ticks d"
  "chans (ConnectionsTotal_Inc d) = chans d"
  "healthChecker (ConnectionsTotal_Inc d) = healthChecker d"
  by (simp_all add: ConnectionsTotal_Inc_def)

lemma ConnectionFailures_Inc_fields [simp]:
  "services (ConnectionFailures_Inc d) = services d"
  "eventListeners (ConnectionFailures_Inc d) = eventListeners d"
  "initialized (ConnectionFailures_Inc d) = initialized d"
  "disc_config (ConnectionFailures_Inc d) = disc_config d"
  "clock (ConnectionFailures_Inc d) = clock d"
  "ticks (ConnectionFailures_Inc d) = ticks d"
  "chans (ConnectionFailures_Inc d) = chans d"
  "healthChecker (ConnectionFailures_Inc d) = healthChecker d"
  by (simp_all add: ConnectionFailures_Inc_def)

lemma RegisterService_existing:
  assumes "initialized d" "ID info \<noteq> []" "Name info \<noteq> []" "Address info \<noteq> []" "Port info \<noteq> 0"
    and "map_of (services d) (ID info) = Some ex"
  shows "RegisterService d info =
    (None, ConnectionsTotal_Inc
       (notifyListeners
          \<lparr>ev_Type = ServiceChangeTypeUpdated, ev_ServiceInfo = info,
           Timestamp = go_div (clock d (ticks d)) 1000000\<rparr>
          (d\<lparr>services := AList.update (ID info) info (services d), ticks := Suc (ticks d)\<rparr>)))"
  using assms by (simp add: RegisterService_def now_millis_def Let_def)

lemma RegisterService_fresh:
  assumes "initialized d" "ID info \<noteq> []" "Name info \<noteq> []" "Address info \<noteq> []" "Port info \<noteq> 0"
    and "map_of (services d) (ID info) = None"
  shows "RegisterService d info =
    (None, ConnectionsTotal_Inc
       (notifyListeners
          \<lparr>ev_Type = ServiceChangeTypeAdded,
           ev_ServiceInfo = info
             \<lparr>Status := (if Status info = [] then DefaultServiceStatus (disc_config d)
                          else Status info),
              LastUpdated := go_div (clock d (ticks d)) 1000000\<rparr>,
           Timestamp = go_div (clock d (Suc (ticks d))) 1000000\<rparr>
          (d\<lparr>services := AList.update (ID info)
                (info\<lparr>Status := (if Status info = [] then DefaultServiceStatus (disc_config d)
                          else Status info),
                  LastUpdated := go_div (clock d (ticks d)) 1000000\<rparr>) (services d),
             ticks := Suc (Suc (ticks d))\<rparr>)))"
  using assms by (simp add: RegisterService_def now_millis_def Let_def)

lemma single_entry:
  "distinct (map fst al) \<Longrightarrow> map_of al k = Some v \<Longrightarrow> length (filter (\<lambda>e. fst e = k) al) = 1"
proof (induction al)
  case Nil
  then show ?case by simp
next
  case (Cons e al)
  show ?case
  proof (cases "fst e = k")
    case True
    with Cons.prems(1) have "k \<notin> fst ` set al" by (cases e) auto
    then have "filter (\<lambda>e. fst e = k) al = []"
      by (force simp: filter_empty_conv)
    with True show ?thesis by simp
  next
    case False
    with Cons show ?thesis by (cases e) auto
  qed
qed

text \<open>
  C10. A \<^verbatim>\<open>RegisterService\<close> call that passes the checks (initialised registry, \<^verbatim>\<open>ID\<close>,
  \<^verbatim>\<open>Name\<close>, \<^verbatim>\<open>Address\<close> not empty, \<^verbatim>\<open>Port\<close> not zero) and whose \<^verbatim>\<open>ID\<close> is already registered
  stores exactly the value the caller gave: an empty \<^verbatim>\<open>Status\<close> stays empty and
  \<^verbatim>\<open>LastUpdated\<close> keeps the caller's value; no other entry changes. A first registration
  instead replaces an empty \<^verbatim>\<open>Status\<close> by the configured default and stamps
  \<^verbatim>\<open>LastUpdated\<close> with the clock.
\<close>

theorem RegisterService_existing_stored_as_given:
  "initialized d \<and> ID info \<noteq> [] \<and> Name info \<noteq> [] \<and> Address info \<noteq> [] \<and> Port info \<noteq> 0 \<longrightarrow>
     (map_of (services d) (ID info) \<noteq> None \<longrightarrow>
        fst (RegisterService d info) = None \<and>
        map_of (services (snd (RegisterService d info))) (ID info) = Some info \<and>
        (\<forall>k. k \<noteq> ID info \<longrightarrow>
           map_of (services (snd (RegisterService d info))) k = map_of (services d) k)) \<and>
     (map_of (services d) (ID info) = None \<longrightarrow>
        fst (RegisterService d info) = None \<and>
        map_of (services (snd (RegisterService d info))) (ID info) =
          Some (info\<lparr>Status := (if Status info = [] then DefaultServiceStatus (disc_config d)
                                  else Status info),
                       LastUpdated := go_div (clock d (ticks d)) 1000000\<rparr>))"
proof (intro impI conjI)
  assume v: "initialized d \<and> ID info \<noteq> [] \<and> Name info \<noteq> [] \<and> Address info \<noteq> [] \<and> Port info \<noteq> 0"
  {
    assume "map_of (services d) (ID info) \<noteq> None"
    then obtain ex where "map_of (services d) (ID info) = Some ex" by auto
    with v have r: "RegisterService d info =
      (None, ConnectionsTotal_Inc
       (notifyListeners
          \<lparr>ev_Type = ServiceChangeTypeUpdated, ev_ServiceInfo = info,
           Timestamp = go_div (clock d (ticks d)) 1000000\<rparr>
          (d\<lparr>services := AList.update (ID info) info (services d), ticks := Suc (ticks d)\<rparr>)))"
      by (intro RegisterService_existing) simp_all
    show "fst (RegisterService d info) = None" by (simp add: r)
    show "map_of (services (snd (RegisterService d info))) (ID info) = Some info"
      by (simp add: r update_conv')
    show "\<forall>k. k \<noteq> ID info \<longrightarrow>
           map_of (services (snd (RegisterService d info))) k = map_of (services d) k"
      by (simp add: r update_conv')
  }
  {
    assume "map_of (services d) (ID info) = None"
    with v have r: "RegisterService d info = (None, ConnectionsTotal_Inc
       (notifyListeners
          \<lparr>ev_Type = ServiceChangeTypeAdded,
           ev_ServiceInfo = info
             \<lparr>Status := (if Status info = [] then DefaultServiceStatus (disc_config d)
                          else Status info),
              LastUpdated := go_div (clock d (ticks d)) 1000000\<rparr>,
           Timestamp = go_div (clock d (Suc (ticks d))) 1000000\<rparr>
          (d\<lparr>services := AList.update (ID info)
                (info\<lparr>Status := (if Status info = [] then DefaultServiceStatus (disc_config d)
                          else Status info),
                  LastUpdated := go_div (clock d (ticks d)) 1000000\<rparr>) (services d),
             ticks := Suc (Suc (ticks d))\<rparr>)))"
      by (intro RegisterService_fresh) simp_all
    show "fst (RegisterService d info) = None" by (simp add: r)
    show "map_of (services (snd (RegisterService d info))) (ID info) =
          Some (info\<lparr>Status := (if Status info = [] then DefaultServiceStatus (disc_config d)
                                  else Status info),
                       LastUpdated := go_div (clock d (ticks d)) 1000000\<rparr>)"
      by (simp add: r update_conv')
  }
qed


theorem RegisterService_existing_stored_as_given_witness:
  "map_of (services two_services) (ID echo_service)
     = Some (echo_service\<lparr>Status := ''running'', LastUpdated := 1700000000000\<rparr>) \<and>
   Status echo_service = [] \<and> LastUpdated echo_service = 0 \<and>
   fst (RegisterService two_services echo_service) = None \<and>
   map_of (services (snd (RegisterService two_services echo_service))) (ID echo_service)
     = Some echo_service \<and>
   map_of (services new_registry) (ID echo_service) = None \<and>
   map_of (services (snd (RegisterService new_registry echo_service))) (ID echo_service)
     = Some (echo_service\<lparr>Status := ''running'', LastUpdated := 1700000000000\<rparr>)"
proof -
  have v: "ID echo_service \<noteq> [] \<and> Name echo_service \<noteq> [] \<and> Address echo_service \<noteq> [] \<and>
      Port echo_service \<noteq> 0"
    and e: "Status echo_service = []" "LastUpdated echo_service = 0"
    by (simp_all add: echo_service_def)
  have i0: "initialized new_registry" and s0: "map_of (services new_registry) (ID echo_service) = None"
    and c0: "DefaultServiceStatus (disc_config new_registry) = ''running''"
      "go_div (clock new_registry (ticks new_registry)) 1000000 = 1700000000000"
    by (simp_all add: eval_registry)
  have s2: "map_of (services two_services) (ID echo_service)
     = Some (echo_service\<lparr>Status := ''running'', LastUpdated := 1700000000000\<rparr>)"
    by (simp add: two_services_services) (simp add: echo_service_def)
  from RegisterService_existing_stored_as_given [of two_services echo_service]
    two_services_initialized v s2
  have a: "fst (RegisterService two_services echo_service) = None"
    "map_of (services (snd (RegisterService two_services echo_service))) (ID echo_service)
       = Some echo_service"
    by simp_all
  from RegisterService_existing_stored_as_given [of new_registry echo_service] i0 v s0
  have "map_of (services (snd (RegisterService new_registry echo_service))) (ID echo_service) =
          Some (echo_service\<lparr>Status := (if Status echo_service = []
                                  then DefaultServiceStatus (disc_config new_registry)
                                  else Status echo_service),
                       LastUpdated := go_div (clock new_registry (ticks new_registry)) 1000000\<rparr>)"
    by simp
  then have b: "map_of (services (snd (RegisterService new_registry echo_service))) (ID echo_service)
     = Some (echo_service\<lparr>Status := ''running'', LastUpdated := 1700000000000\<rparr>)"
    by (simp only: c0 e refl if_True)
  from s2 e a s0 b show ?thesis by (intro conjI)
qed

lemma RegisterService_ok:
  assumes "initialized d" "ID info \<noteq> []" "Name info \<noteq> []" "Address info \<noteq> []" "Port info \<noteq> 0"
  shows "\<exists>d'. RegisterService d info = (None, d') \<and> initialized d' \<and>
           eventListeners d' = eventListeners d \<and>
           map_of (services d') (ID info) \<noteq> None \<and>
           (distinct (map fst (services d)) \<longrightarrow> distinct (map fst (services d')))"
proof (cases "map_of (services d) (ID info)")
  case None
  from RegisterService_fresh [OF assms None] assms(1) show ?thesis
    by (simp add: update_conv' distinct_update)
next
  case (Some ex)
  from RegisterService_existing [OF assms Some] assms(1) show ?thesis
    by (simp add: update_conv' distinct_update)
qed

text \<open>
  C2. On an initialised registry, two \<^verbatim>\<open>RegisterService\<close> calls with values that pass the
  checks and share their \<^verbatim>\<open>ID\<close> both succeed and leave exactly one entry under that
  \<^verbatim>\<open>ID\<close>, the second value. The second call notifies the listeners once, with an event
  of type \<^verbatim>\<open>updated\<close> that carries the second value: every channel receives this event
  once for each listener registered with it, as far as it has room, and nothing else;
  a channel with room and one listener receives exactly this one event. When the \<^verbatim>\<open>ID\<close>
  was not registered before the first call, the first call notifies the listeners once
  with an event of type \<^verbatim>\<open>added\<close>.
\<close>

theorem RegisterService_twice:
  assumes wf: "distinct (map fst (services d))" and init: "initialized d"
    and v1: "ID i1 \<noteq> []" "Name i1 \<noteq> []" "Address i1 \<noteq> []" "Port i1 \<noteq> 0"
    and v2: "Name i2 \<noteq> []" "Address i2 \<noteq> []" "Port i2 \<noteq> 0"
    and same: "ID i2 = ID i1"
    and r1: "RegisterService d i1 = (e1, d1)"
    and r2: "RegisterService d1 i2 = (e2, d2)"
  shows "e1 = None \<and> e2 = None \<and>
     length (filter (\<lambda>e. fst e = ID i1) (services d2)) = 1 \<and>
     map_of (services d2) (ID i1) = Some i2 \<and>
     (\<forall>c. buffer (chans d2 c) = buffer (chans d1 c) @
            deliveries c \<lparr>ev_Type = ServiceChangeTypeUpdated, ev_ServiceInfo = i2,
                          Timestamp = go_div (clock d1 (ticks d1)) 1000000\<rparr> d1) \<and>
     (\<forall>c l. filter (\<lambda>l. snd l = c) (eventListeners d1) = [l] \<and>
            length (buffer (chans d1 c)) < capacity (chans d1 c) \<longrightarrow>
            buffer (chans d2 c) = buffer (chans d1 c) @
              [\<lparr>ev_Type = ServiceChangeTypeUpdated, ev_ServiceInfo = i2,
                Timestamp = go_div (clock d1 (ticks d1)) 1000000\<rparr>]) \<and>
     (map_of (services d) (ID i1) = None \<longrightarrow>
        (\<forall>c. buffer (chans d1 c) = buffer (chans d c) @
            deliveries c
              \<lparr>ev_Type = ServiceChangeTypeAdded,
               ev_ServiceInfo = i1
                 \<lparr>Status := (if Status i1 = [] then DefaultServiceStatus (disc_config d)
                              else Status i1),
                  LastUpdated := go_div (clock d (ticks d)) 1000000\<rparr>,
               Timestamp = go_div (clock d (Suc (ticks d))) 1000000\<rparr> d))"
proof -
  let ?upd = "\<lparr>ev_Type = ServiceChangeTypeUpdated, ev_ServiceInfo = i2,
                Timestamp = go_div (clock d1 (ticks d1)) 1000000\<rparr>"
  from RegisterService_ok [OF init v1] r1 wf
  have e1: "e1 = None" and init1: "initialized d1"
    and ex1: "map_of (services d1) (ID i1) \<noteq> None"
    and wf1: "distinct (map fst (services d1))"
    by auto
  from ex1 same obtain x where x: "map_of (services d1) (ID i2) = Some x" by auto
  have id2: "ID i2 \<noteq> []" using same v1(1) by simp
  let ?d1' = "d1\<lparr>services := AList.update (ID i2) i2 (services d1), ticks := Suc (ticks d1)\<rparr>"
  from RegisterService_existing [OF init1 id2 v2 x] r2
  have e2: "e2 = None" and d2: "d2 = ConnectionsTotal_Inc (notifyListeners ?upd ?d1')"
    by simp_all
  have srv: "services d2 = AList.update (ID i1) i2 (services d1)"
    using d2 same by simp
  have m2: "map_of (services d2) (ID i1) = Some i2"
    by (simp add: srv update_conv')
  have "distinct (map fst (services d2))"
    using wf1 by (simp add: srv distinct_update)
  from single_entry [OF this m2]
  have one: "length (filter (\<lambda>e. fst e = ID i1) (services d2)) = 1" .
  have dl: "\<And>c. deliveries c ?upd ?d1' = deliveries c ?upd d1"
    by (rule deliveries_cong) simp_all
  have buf: "\<forall>c. buffer (chans d2 c) = buffer (chans d1 c) @ deliveries c ?upd d1"
    using d2 dl by (simp add: notifyListeners_buffer)
  have sing: "\<forall>c l. filter (\<lambda>l. snd l = c) (eventListeners d1) = [l] \<and>
            length (buffer (chans d1 c)) < capacity (chans d1 c) \<longrightarrow>
            buffer (chans d2 c) = buffer (chans d1 c) @ [?upd]"
    using buf by (auto simp: deliveries_single)
  have added: "map_of (services d) (ID i1) = None \<longrightarrow>
        (\<forall>c. buffer (chans d1 c) = buffer (chans d c) @
            deliveries c
              \<lparr>ev_Type = ServiceChangeTypeAdded,
               ev_ServiceInfo = i1
                 \<lparr>Status := (if Status i1 = [] then DefaultServiceStatus (disc_config d)
                              else Status i1),
                  LastUpdated := go_div (clock d (ticks d)) 1000000\<rparr>,
               Timestamp = go_div (clock d (Suc (ticks d))) 1000000\<rparr> d)"
  proof (intro impI allI)
    fix c
    assume n: "map_of (services d) (ID i1) = None"
    let ?ev = "\<lparr>ev_Type = ServiceChangeTypeAdded,
               ev_ServiceInfo = i1
                 \<lparr>Status := (if Status i1 = [] then DefaultServiceStatus (disc_config d)
                              else Status i1),
                  LastUpdated := go_div (clock d (ticks d)) 1000000\<rparr>,
               Timestamp = go_div (clock d (Suc (ticks d))) 1000000\<rparr>"
    let ?d' = "d\<lparr>services := AList.update (ID i1)
                (i1\<lparr>Status := (if Status i1 = [] then DefaultServiceStatus (disc_config d)
                          else Status i1),
                  LastUpdated := go_div (clock d (ticks d)) 1000000\<rparr>) (services d),
             ticks := Suc (Suc (ticks d))\<rparr>"
    from RegisterService_fresh [OF init v1 n] r1
    have d1: "d1 = ConnectionsTotal_Inc (notifyListeners ?ev ?d')" by simp
    have "deliveries c ?ev ?d' = deliveries c ?ev d"
      by (rule deliveries_cong) simp_all
    with d1 show "buffer (chans d1 c) = buffer (chans d c) @ deliveries c ?ev d"
      by (simp add: notifyListeners_buffer)
  qed
  from e1 e2 one m2 buf sing added show ?thesis by (intro conjI)
qed


lemma watched_registry_fields:
  "initialized watched_registry" "services watched_registry = []"
  "eventListeners watched_registry = [(1700000000000000000, 0)]"
  "ticks watched_registry = 1" "clock watched_registry = example_clock"
  "chans watched_registry = example_chans"
  "disc_config watched_registry = DefaultDiscoveryConfig"
  by (simp_all add: watched_registry_def WatchServices_def time_Now_UnixNano_def
      new_registry_def DiscoveryService_Initialize_def NewDiscoveryService_def
      DefaultDiscoveryConfig_def example_clock_def)

theorem RegisterService_twice_witness:
  "distinct (map fst (services watched_registry)) \<and> initialized watched_registry \<and>
   ID echo_moved = ID echo_service \<and>
   fst (RegisterService watched_registry echo_service) = None \<and>
   fst (RegisterService (snd (RegisterService watched_registry echo_service)) echo_moved) = None \<and>
   services (snd (RegisterService (snd (RegisterService watched_registry echo_service)) echo_moved))
     = [(''svc-1'', echo_moved)] \<and>
   map ev_Type (buffer (chans
       (snd (RegisterService (snd (RegisterService watched_registry echo_service)) echo_moved)) 0))
     = [ServiceChangeTypeAdded, ServiceChangeTypeUpdated]"
proof -
  let ?d1 = "snd (RegisterService watched_registry echo_service)"
  let ?d2 = "snd (RegisterService ?d1 echo_moved)"
  have wf: "distinct (map fst (services watched_registry))" and init: "initialized watched_registry"
    by (simp_all add: watched_registry_fields)
  have v1: "ID echo_service \<noteq> []" "Name echo_service \<noteq> []" "Address echo_service \<noteq> []"
      "Port echo_service \<noteq> 0"
    and v2: "Name echo_moved \<noteq> []" "Address echo_moved \<noteq> []" "Port echo_moved \<noteq> 0"
    and same: "ID echo_moved = ID echo_service"
    by (simp_all add: echo_service_def echo_moved_def)
  have r1: "RegisterService watched_registry echo_service
      = (fst (RegisterService watched_registry echo_service), ?d1)"
    and r2: "RegisterService ?d1 echo_moved = (fst (RegisterService ?d1 echo_moved), ?d2)"
    by simp_all
  note t = RegisterService_twice [OF wf init v1 v2 same r1 r2]
  from t have e: "fst (RegisterService watched_registry echo_service) = None"
    "fst (RegisterService ?d1 echo_moved) = None"
    and m: "map_of (services ?d2) (ID echo_service) = Some echo_moved"
    by blast+
  have fresh: "map_of (services watched_registry) (ID echo_service) = None"
    by (simp add: watched_registry_fields)
  have d1: "services ?d1 = [(''svc-1'', echo_service\<lparr>Status := ''running'', LastUpdated := 1700000000001\<rparr>)]"
    "eventListeners ?d1 = [(1700000000000000000, 0)]"
    "map ev_Type (buffer (chans ?d1 0)) = [ServiceChangeTypeAdded]"
    "capacity (chans ?d1 0) = 4"
    "length (buffer (chans ?d1 0)) = 1"
    unfolding RegisterService_fresh [OF init v1 fresh]
    by (simp_all add: watched_registry_fields
        notifyListeners_def try_send_def example_chans_def example_clock_def
        DefaultDiscoveryConfig_def ServiceStatusRunning_def go_div_def signed_divide_int_def
        echo_service_def)
  have s2: "services ?d2 = [(''svc-1'', echo_moved)]"
  proof -
    from RegisterService_ok [OF init v1] obtain d' where
      "RegisterService watched_registry echo_service = (None, d')" "initialized d'" by blast
    then have i1: "initialized ?d1" by simp
    have idm: "ID echo_moved = ''svc-1''" by (simp add: echo_moved_def echo_service_def)
    have x: "map_of (services ?d1) (ID echo_moved) =
        Some (echo_service\<lparr>Status := ''running'', LastUpdated := 1700000000001\<rparr>)"
      unfolding d1(1) idm by simp
    have id2: "ID echo_moved \<noteq> []" using same v1 by simp
    show ?thesis
      unfolding RegisterService_existing [OF i1 id2 v2 x]
      by (simp add: d1) (simp add: echo_moved_def echo_service_def)
  qed
  have one: "filter (\<lambda>l. snd l = 0) (eventListeners ?d1) = [(1700000000000000000, 0)]"
    by (simp add: d1)
  have room: "length (buffer (chans ?d1 0)) < capacity (chans ?d1 0)"
    by (simp add: d1(4,5))
  from t one room
  have "buffer (chans ?d2 0) = buffer (chans ?d1 0) @
              [\<lparr>ev_Type = ServiceChangeTypeUpdated, ev_ServiceInfo = echo_moved,
                Timestamp = go_div (clock ?d1 (ticks ?d1)) 1000000\<rparr>]"
    by blast
  then have b: "map ev_Type (buffer (chans ?d2 0)) = [ServiceChangeTypeAdded, ServiceChangeTypeUpdated]"
    by (simp add: d1)
  from wf init same e s2 b show ?thesis by (intro conjI)
qed

subsection \<open>Health checks\<close>

lemma updateServiceStatus_changed:
  assumes "map_of (services d) sid = Some info" "Status info \<noteq> st"
  shows "updateServiceStatus d sid st =
    ConnectionsTotal_Inc
      (notifyListeners
         \<lparr>ev_Type = ServiceChangeTypeUpdated,
          ev_ServiceInfo = info\<lparr>Status := st, LastUpdated := go_div (clock d (ticks d)) 1000000\<rparr>,
          Timestamp = go_div (clock d (ticks d)) 1000000\<rparr>
         (d\<lparr>ticks := Suc (ticks d),
            services := AList.update sid
               (info\<lparr>Status := st, LastUpdated := go_div (clock d (ticks d)) 1000000\<rparr>)
               (services d)\<rparr>))"
  using assms by (simp add: updateServiceStatus_def now_millis_def Let_def)

lemma CheckServiceHealth_result:
  assumes "initialized d" "EnableHealthChecks (disc_config d)"
    "map_of (services d) sid = Some info" "healthChecker d info = Inr healthy"
  shows "CheckServiceHealth d sid =
    (Inr healthy,
     if healthy \<and> Status info \<noteq> ServiceStatusRunning
     then updateServiceStatus d sid ServiceStatusRunning
     else if \<not> healthy \<and> Status info = ServiceStatusRunning
     then updateServiceStatus d sid ServiceStatusFailed
     else d)"
  using assms by (simp add: CheckServiceHealth_def)

lemma status_update_delivered:
  assumes reg: "map_of (services d) sid = Some info" and ne: "Status info \<noteq> st"
  shows "map_of (services (updateServiceStatus d sid st)) sid =
       Some (info\<lparr>Status := st, LastUpdated := go_div (clock d (ticks d)) 1000000\<rparr>) \<and>
     (\<forall>c. buffer (chans (updateServiceStatus d sid st) c) = buffer (chans d c) @
        deliveries c
          \<lparr>ev_Type = ServiceChangeTypeUpdated,
           ev_ServiceInfo = info\<lparr>Status := st, LastUpdated := go_div (clock d (ticks d)) 1000000\<rparr>,
           Timestamp = go_div (clock d (ticks d)) 1000000\<rparr> d)"
proof -
  let ?i = "info\<lparr>Status := st, LastUpdated := go_div (clock d (ticks d)) 1000000\<rparr>"
  let ?ev = "\<lparr>ev_Type = ServiceChangeTypeUpdated, ev_ServiceInfo = ?i,
           Timestamp = go_div (clock d (ticks d)) 1000000\<rparr>"
  let ?d' = "d\<lparr>ticks := Suc (ticks d), services := AList.update sid ?i (services d)\<rparr>"
  note u = updateServiceStatus_changed [OF reg ne]
  have dl: "\<And>c. deliveries c ?ev ?d' = deliveries c ?ev d"
    by (rule deliveries_cong) simp_all
  show ?thesis
    unfolding u by (simp add: update_conv' notifyListeners_buffer dl)
qed

text \<open>
  C6. For a registered service on an initialised registry with health checks enabled,
  whose checker answers without error: an answer "unhealthy" while the status read is
  \<^verbatim>\<open>running\<close> sets the status to \<^verbatim>\<open>failed\<close>, an answer "healthy" while the status is not
  \<^verbatim>\<open>running\<close> sets it to \<^verbatim>\<open>running\<close>; either change notifies the listeners once, with an
  \<^verbatim>\<open>updated\<close> event that carries the service with its new status (every channel
  receives it once for each of its listeners, as far as it has room; a channel with
  room and one listener receives exactly this one event). In every other case the
  registry and the channels are left as they were: no event.
\<close>

theorem CheckServiceHealth_status_transitions:
  assumes init: "initialized d" and en: "EnableHealthChecks (disc_config d)"
    and reg: "map_of (services d) sid = Some info"
    and chk: "healthChecker d info = Inr healthy"
    and res: "CheckServiceHealth d sid = (r, d')"
  shows "r = Inr healthy \<and>
    (\<not> healthy \<and> Status info = ServiceStatusRunning \<longrightarrow>
       map_of (services d') sid =
         Some (info\<lparr>Status := ServiceStatusFailed,
                    LastUpdated := go_div (clock d (ticks d)) 1000000\<rparr>) \<and>
       (\<forall>c. buffer (chans d' c) = buffer (chans d c) @
          deliveries c
            \<lparr>ev_Type = ServiceChangeTypeUpdated,
             ev_ServiceInfo = info\<lparr>Status := ServiceStatusFailed,
                                   LastUpdated := go_div (clock d (ticks d)) 1000000\<rparr>,
             Timestamp = go_div (clock d (ticks d)) 1000000\<rparr> d)) \<and>
    (healthy \<and> Status info \<noteq> ServiceStatusRunning \<longrightarrow>
       map_of (services d') sid =
         Some (info\<lparr>Status := ServiceStatusRunning,
                    LastUpdated := go_div (clock d (ticks d)) 1000000\<rparr>) \<and>
       (\<forall>c. buffer (chans d' c) = buffer (chans d c) @
          deliveries c
            \<lparr>ev_Type = ServiceChangeTypeUpdated,
             ev_ServiceInfo = info\<lparr>Status := ServiceStatusRunning,
                                   LastUpdated := go_div (clock d (ticks d)) 1000000\<rparr>,
             Timestamp = go_div (clock d (ticks d)) 1000000\<rparr> d)) \<and>
    ((healthy \<longleftrightarrow> Status info = ServiceStatusRunning) \<longrightarrow> d' = d) \<and>
    (\<forall>c l ev. filter (\<lambda>l. snd l = c) (eventListeners d) = [l] \<and>
        length (buffer (chans d c)) < capacity (chans d c) \<longrightarrow> deliveries c ev d = [ev])"
proof -
  note cr = CheckServiceHealth_result [OF init en reg chk]
  have rf: "ServiceStatusRunning \<noteq> ServiceStatusFailed"
    by (simp add: ServiceStatusRunning_def ServiceStatusFailed_def)
  from cr res have r: "r = Inr healthy" by simp
  have down: "\<not> healthy \<and> Status info = ServiceStatusRunning \<longrightarrow>
       map_of (services d') sid =
         Some (info\<lparr>Status := ServiceStatusFailed,
                    LastUpdated := go_div (clock d (ticks d)) 1000000\<rparr>) \<and>
       (\<forall>c. buffer (chans d' c) = buffer (chans d c) @
          deliveries c
            \<lparr>ev_Type = ServiceChangeTypeUpdated,
             ev_ServiceInfo = info\<lparr>Status := ServiceStatusFailed,
                                   LastUpdated := go_div (clock d (ticks d)) 1000000\<rparr>,
             Timestamp = go_div (clock d (ticks d)) 1000000\<rparr> d)"
  proof
    assume a: "\<not> healthy \<and> Status info = ServiceStatusRunning"
    with cr res have d': "d' = updateServiceStatus d sid ServiceStatusFailed" by simp
    from a rf have ne: "Status info \<noteq> ServiceStatusFailed" by simp
    from status_update_delivered [OF reg ne] show "map_of (services d') sid =
         Some (info\<lparr>Status := ServiceStatusFailed,
                    LastUpdated := go_div (clock d (ticks d)) 1000000\<rparr>) \<and>
       (\<forall>c. buffer (chans d' c) = buffer (chans d c) @
          deliveries c
            \<lparr>ev_Type = ServiceChangeTypeUpdated,
             ev_ServiceInfo = info\<lparr>Status := ServiceStatusFailed,
                                   LastUpdated := go_div (clock d (ticks d)) 1000000\<rparr>,
             Timestamp = go_div (clock d (ticks d)) 1000000\<rparr> d)"
      unfolding d' .
  qed
  have up: "healthy \<and> Status info \<noteq> ServiceStatusRunning \<longrightarrow>
       map_of (services d') sid =
         Some (info\<lparr>Status := ServiceStatusRunning,
                    LastUpdated := go_div (clock d (ticks d)) 1000000\<rparr>) \<and>
       (\<forall>c. buffer (chans d' c) = buffer (chans d c) @
          deliveries c
            \<lparr>ev_Type = ServiceChangeTypeUpdated,
             ev_ServiceInfo = info\<lparr>Status := ServiceStatusRunning,
                                   LastUpdated := go_div (clock d (ticks d)) 1000000\<rparr>,
             Timestamp = go_div (clock d (ticks d)) 1000000\<rparr> d)"
  proof
    assume a: "healthy \<and> Status info \<noteq> ServiceStatusRunning"
    with cr res have d': "d' = updateServiceStatus d sid ServiceStatusRunning" by simp
    from a have ne: "Status info \<noteq> ServiceStatusRunning" by simp
    from status_update_delivered [OF reg ne] show "map_of (services d') sid =
         Some (info\<lparr>Status := ServiceStatusRunning,
                    LastUpdated := go_div (clock d (ticks d)) 1000000\<rparr>) \<and>
       (\<forall>c. buffer (chans d' c) = buffer (chans d c) @
          deliveries c
            \<lparr>ev_Type = ServiceChangeTypeUpdated,
             ev_ServiceInfo = info\<lparr>Status := ServiceStatusRunning,
                                   LastUpdated := go_div (clock d (ticks d)) 1000000\<rparr>,
             Timestamp = go_div (clock d (ticks d)) 1000000\<rparr> d)"
      unfolding d' .
  qed
  have same: "(healthy \<longleftrightarrow> Status info = ServiceStatusRunning) \<longrightarrow> d' = d"
    using cr res by auto
  have single: "\<forall>c l ev. filter (\<lambda>l. snd l = c) (eventListeners d) = [l] \<and>
        length (buffer (chans d c)) < capacity (chans d c) \<longrightarrow> deliveries c ev d = [ev]"
    by (auto simp: deliveries_single)
  from r down up same single show ?thesis by (intro conjI)
qed


lemma registered_watched_fields:
  "initialized registered_watched"
  "services registered_watched =
     [(''svc-1'', echo_service\<lparr>Status := ''running'', LastUpdated := 1700000000001\<rparr>)]"
  "eventListeners registered_watched = [(1700000000000000000, 0)]"
  "map ev_Type (buffer (chans registered_watched 0)) = [ServiceChangeTypeAdded]"
  "capacity (chans registered_watched 0) = 4"
  "length (buffer (chans registered_watched 0)) = 1"
  "disc_config registered_watched = DefaultDiscoveryConfig"
proof -
  have init: "initialized watched_registry" by (simp add: watched_registry_fields)
  have v1: "ID echo_service \<noteq> []" "Name echo_service \<noteq> []" "Address echo_service \<noteq> []"
      "Port echo_service \<noteq> 0"
    by (simp_all add: echo_service_def)
  have fresh: "map_of (services watched_registry) (ID echo_service) = None"
    by (simp add: watched_registry_fields)
  show "initialized registered_watched"
  "services registered_watched =
     [(''svc-1'', echo_service\<lparr>Status := ''running'', LastUpdated := 1700000000001\<rparr>)]"
  "eventListeners registered_watched = [(1700000000000000000, 0)]"
  "map ev_Type (buffer (chans registered_watched 0)) = [ServiceChangeTypeAdded]"
  "capacity (chans registered_watched 0) = 4"
  "length (buffer (chans registered_watched 0)) = 1"
  "disc_config registered_watched = DefaultDiscoveryConfig"
    unfolding registered_watched_def RegisterService_fresh [OF init v1 fresh]
    by (simp_all add: watched_registry_fields
        notifyListeners_def try_send_def example_chans_def example_clock_def
        DefaultDiscoveryConfig_def ServiceStatusRunning_def go_div_def signed_divide_int_def
        echo_service_def)
qed

theorem CheckServiceHealth_status_transitions_witness:
  "Status (echo_service\<lparr>Status := ''running'', LastUpdated := 1700000000001\<rparr>) = ServiceStatusRunning \<and>
   fst (CheckServiceHealth (SetHealthChecker registered_watched always_unhealthy) ''svc-1'')
     = Inr False \<and>
   map_option Status (map_of (services
       (snd (CheckServiceHealth (SetHealthChecker registered_watched always_unhealthy) ''svc-1'')))
       ''svc-1'') = Some ''failed'' \<and>
   map ev_Type (buffer (chans
       (snd (CheckServiceHealth (SetHealthChecker registered_watched always_unhealthy) ''svc-1'')) 0))
     = [ServiceChangeTypeAdded, ServiceChangeTypeUpdated] \<and>
   fst (CheckServiceHealth (SetHealthChecker two_services always_healthy) ''svc-2'') = Inr True \<and>
   map_option Status (map_of (services
       (snd (CheckServiceHealth (SetHealthChecker two_services always_healthy) ''svc-2'')))
       ''svc-2'') = Some ''running'' \<and>
   snd (CheckServiceHealth (SetHealthChecker two_services always_healthy) ''svc-1'')
     = SetHealthChecker two_services always_healthy"
proof -
  let ?e = "echo_service\<lparr>Status := ''running'', LastUpdated := 1700000000001\<rparr>"
  let ?dA = "SetHealthChecker registered_watched always_unhealthy"
  let ?dB = "snd (CheckServiceHealth ?dA ''svc-1'')"
  have st: "Status ?e = ServiceStatusRunning" by (simp add: ServiceStatusRunning_def)
  have A: "initialized ?dA" "EnableHealthChecks (disc_config ?dA)"
    "map_of (services ?dA) ''svc-1'' = Some ?e" "healthChecker ?dA ?e = Inr False"
    "CheckServiceHealth ?dA ''svc-1'' = (fst (CheckServiceHealth ?dA ''svc-1''), ?dB)"
    "filter (\<lambda>l. snd l = 0) (eventListeners ?dA) = [(1700000000000000000, 0)]"
    "length (buffer (chans ?dA 0)) < capacity (chans ?dA 0)"
    "map ev_Type (buffer (chans ?dA 0)) = [ServiceChangeTypeAdded]"
    by (simp_all add: SetHealthChecker_def registered_watched_fields DefaultDiscoveryConfig_def
        always_unhealthy_def)
  note tA = CheckServiceHealth_status_transitions [OF A(1-5)]
  from tA have a1: "fst (CheckServiceHealth ?dA ''svc-1'') = Inr False" by blast
  from tA st have a2: "map_of (services ?dB) ''svc-1'' =
         Some (?e\<lparr>Status := ServiceStatusFailed,
                    LastUpdated := go_div (clock ?dA (ticks ?dA)) 1000000\<rparr>)"
    and a3: "\<forall>c. buffer (chans ?dB c) = buffer (chans ?dA c) @
          deliveries c
            \<lparr>ev_Type = ServiceChangeTypeUpdated,
             ev_ServiceInfo = ?e\<lparr>Status := ServiceStatusFailed,
                                   LastUpdated := go_div (clock ?dA (ticks ?dA)) 1000000\<rparr>,
             Timestamp = go_div (clock ?dA (ticks ?dA)) 1000000\<rparr> ?dA"
    and a4: "\<forall>c l ev. filter (\<lambda>l. snd l = c) (eventListeners ?dA) = [l] \<and>
        length (buffer (chans ?dA c)) < capacity (chans ?dA c) \<longrightarrow> deliveries c ev ?dA = [ev]"
    by blast+
  from a2 have b2: "map_option Status (map_of (services ?dB) ''svc-1'') = Some ''failed''"
    by (simp add: ServiceStatusFailed_def)
  from a4 A(6,7) have "\<And>ev. deliveries 0 ev ?dA = [ev]" by blast
  with a3 A(8) have b3: "map ev_Type (buffer (chans ?dB 0))
     = [ServiceChangeTypeAdded, ServiceChangeTypeUpdated]"
    by simp
  let ?dC = "SetHealthChecker two_services always_healthy"
  let ?a = "audit_service\<lparr>LastUpdated := 1700000000002\<rparr>"
  let ?e0 = "echo_service\<lparr>Status := ''running'', LastUpdated := 1700000000000\<rparr>"
  have C: "initialized ?dC" "EnableHealthChecks (disc_config ?dC)"
    "map_of (services ?dC) ''svc-2'' = Some ?a" "healthChecker ?dC ?a = Inr True"
    "map_of (services ?dC) ''svc-1'' = Some ?e0" "healthChecker ?dC ?e0 = Inr True"
    "Status ?a \<noteq> ServiceStatusRunning" "Status ?e0 = ServiceStatusRunning"
    by (simp_all add: SetHealthChecker_def two_services_services two_services_initialized
        always_healthy_def ServiceStatusRunning_def audit_service_def)
      (simp_all add: two_services_def eval_registry)
  have r2: "CheckServiceHealth ?dC ''svc-2''
      = (fst (CheckServiceHealth ?dC ''svc-2''), snd (CheckServiceHealth ?dC ''svc-2''))"
    and r1: "CheckServiceHealth ?dC ''svc-1''
      = (fst (CheckServiceHealth ?dC ''svc-1''), snd (CheckServiceHealth ?dC ''svc-1''))"
    by simp_all
  from CheckServiceHealth_status_transitions [OF C(1,2,3,4) r2] C(7)
  have c1: "fst (CheckServiceHealth ?dC ''svc-2'') = Inr True"
    and "map_of (services (snd (CheckServiceHealth ?dC ''svc-2''))) ''svc-2'' =
         Some (?a\<lparr>Status := ServiceStatusRunning,
                    LastUpdated := go_div (clock ?dC (ticks ?dC)) 1000000\<rparr>)"
    by blast+
  then have c2: "map_option Status (map_of (services (snd (CheckServiceHealth ?dC ''svc-2''))) ''svc-2'')
      = Some ''running''"
    by (simp add: ServiceStatusRunning_def)
  from CheckServiceHealth_status_transitions [OF C(1,2,5,6) r1] C(8)
  have c3: "snd (CheckServiceHealth ?dC ''svc-1'') = ?dC" by blast
  from st a1 b2 b3 c1 c2 c3 show ?thesis by (intro conjI)
qed

subsection \<open>Watchers\<close>

lemma replay_services_fields [simp]:
  "services (replay_services f c ss d) = services d"
  "eventListeners (replay_services f c ss d) = eventListeners d"
  "initialized (replay_services f c ss d) = initialized d"
  "disc_config (replay_services f c ss d) = disc_config d"
  by (induction f c ss d rule: replay_services.induct; simp add: now_millis_def)+

lemma try_send_other: "c' \<noteq> c \<Longrightarrow> try_send c ev st c' = st c'"
  by (simp add: try_send_def)

lemma replay_services_other_chans:
  "c' \<noteq> c \<Longrightarrow> chans (replay_services f c ss d) c' = chans d c'"
proof (induction ss arbitrary: d)
  case Nil
  show ?case by simp
next
  case (Cons s ss)
  obtain sid info where s: "s = (sid, info)" by (cases s) auto
  from Cons.IH [OF Cons.prems] Cons.prems s show ?case
    by (simp add: now_millis_def try_send_other)
qed

lemma replay_services_buffer:
  "\<exists>evs. buffer (chans (replay_services f c ss d) c) = buffer (chans d c) @ evs \<and>
         map ev_ServiceInfo evs =
           take (capacity (chans d c) - length (buffer (chans d c)))
             (filter (Matches f) (map snd ss)) \<and>
         (\<forall>e \<in> set evs. ev_Type e = ServiceChangeTypeAdded)"
proof (induction ss arbitrary: d)
  case Nil
  show ?case by simp
next
  case (Cons s rest)
  obtain sid info where s: "s = (sid, info)" by (cases s) auto
  show ?case
  proof (cases "Matches f info")
    case False
    with Cons.IH [of d] s show ?thesis by simp
  next
    case True
    let ?t = "go_div (clock d (ticks d)) 1000000"
    let ?ev = "\<lparr>ev_Type = ServiceChangeTypeAdded, ev_ServiceInfo = info, Timestamp = ?t\<rparr>"
    let ?d1 = "d\<lparr>ticks := Suc (ticks d)\<rparr>"
    let ?d2 = "?d1\<lparr>chans := try_send c ?ev (chans ?d1)\<rparr>"
    have nm: "now_millis d = (?t, ?d1)" by (simp add: now_millis_def)
    from Cons.IH [of ?d2]
    obtain evs where evs: "buffer (chans (replay_services f c rest ?d2) c) = buffer (chans ?d2 c) @ evs"
      "map ev_ServiceInfo evs =
           take (capacity (chans ?d2 c) - length (buffer (chans ?d2 c)))
             (filter (Matches f) (map snd rest))"
      "\<forall>e \<in> set evs. ev_Type e = ServiceChangeTypeAdded"
      by blast
    have step: "replay_services f c ((sid, info) # rest) d = replay_services f c rest ?d2"
      using True by (simp add: nm)
    show ?thesis
    proof (cases "length (buffer (chans d c)) < capacity (chans d c)")
      case room: True
      then have b: "buffer (chans ?d2 c) = buffer (chans d c) @ [?ev]"
        "capacity (chans ?d2 c) = capacity (chans d c)"
        by (simp_all add: try_send_def)
      from room obtain k where k: "capacity (chans d c) - length (buffer (chans d c)) = Suc k"
        by (metis Suc_diff_Suc)
      then have k': "capacity (chans d c) - Suc (length (buffer (chans d c))) = k" by simp
      have "buffer (chans (replay_services f c (s # rest) d) c)
          = buffer (chans d c) @ (?ev # evs)"
        using evs(1) b step s by simp
      moreover have "map ev_ServiceInfo (?ev # evs) =
           take (capacity (chans d c) - length (buffer (chans d c)))
             (filter (Matches f) (map snd (s # rest)))"
        using evs(2) b True k k' s by simp
      moreover have "\<forall>e \<in> set (?ev # evs). ev_Type e = ServiceChangeTypeAdded"
        using evs(3) by simp
      ultimately show ?thesis by blast
    next
      case False
      then have b: "chans ?d2 c = chans d c" by (simp add: try_send_def)
      from False have z: "capacity (chans d c) - length (buffer (chans d c)) = 0" by simp
      from evs b z step s show ?thesis by simp
    qed
  qed
qed

lemma WatchServices_ok:
  assumes "initialized d" "EnableWatching (disc_config d)"
  shows "WatchServices d F (Some c) =
    (Inr (clock d (ticks d)),
     replay_services F c (services d)
       (d\<lparr>ticks := Suc (ticks d),
          eventListeners := AList.update (clock d (ticks d)) c (eventListeners d)\<rparr>))"
  using assms by (simp add: WatchServices_def time_Now_UnixNano_def)

lemma DeregisterService_ok:
  assumes "initialized d" "map_of (services d) sid = Some info"
  shows "DeregisterService d sid =
    (None, ConnectionFailures_Inc
       (notifyListeners
          \<lparr>ev_Type = ServiceChangeTypeRemoved, ev_ServiceInfo = info,
           Timestamp = go_div (clock d (ticks d)) 1000000\<rparr>
          (d\<lparr>services := AList.delete sid (services d), ticks := Suc (ticks d)\<rparr>)))"
  using assms by (simp add: DeregisterService_def now_millis_def Let_def)

lemma deliveries_registered:
  assumes "(lid, c) \<in> set (eventListeners d)"
    and "length (buffer (chans d c)) < capacity (chans d c)"
  shows "deliveries c ev d \<noteq> [] \<and> set (deliveries c ev d) = {ev}"
proof -
  from assms(1) have "(lid, c) \<in> set (filter (\<lambda>l. snd l = c) (eventListeners d))" by simp
  then have "0 < length (filter (\<lambda>l. snd l = c) (eventListeners d))"
    by (metis length_pos_if_in_set)
  with assms(2) have "0 < min (capacity (chans d c) - length (buffer (chans d c)))
            (length (filter (\<lambda>l. snd l = c) (eventListeners d)))"
    by simp
  then show ?thesis by (auto simp: deliveries_def)
qed

lemma update_entry: "(k, v) \<in> set (AList.update k v al)"
  by (induction al) auto


text \<open>
  C9. \<^verbatim>\<open>WatchServices\<close> with filter \<open>F\<close> and channel \<open>c\<close> on an initialised registry with
  watching enabled registers the listener whatever \<open>F\<close> is; \<open>F\<close> decides only which
  registered services are replayed to \<open>c\<close> as \<^verbatim>\<open>added\<close> events (those it matches, in the
  order of the range, as far as \<open>c\<close> has room). In any later state \<open>d2\<close> in which the
  listener is registered and \<open>c\<close> has room, every notification puts its event into
  \<open>c\<close>, and so do the registry's mutations: \<^verbatim>\<open>RegisterService\<close> (\<^verbatim>\<open>added\<close> for a new ID,
  \<^verbatim>\<open>updated\<close> for a known one), \<^verbatim>\<open>DeregisterService\<close> (\<^verbatim>\<open>removed\<close>) and a status change
  (\<^verbatim>\<open>updated\<close>), for every service, whether \<open>F\<close> matches it or not: \<open>F\<close> does not occur
  in what is delivered. Delivery never blocks: a channel without room drops the event.
\<close>

theorem WatchServices_filter_only_replay:
  assumes init: "initialized d" and en: "EnableWatching (disc_config d)"
    and w: "WatchServices d F (Some c) = (r, d1)"
  shows
   "r = Inr (clock d (ticks d)) \<and>
    eventListeners d1 = AList.update (clock d (ticks d)) c (eventListeners d) \<and>
    (clock d (ticks d), c) \<in> set (eventListeners d1) \<and>
    services d1 = services d \<and> initialized d1 \<and>
    (\<exists>evs. buffer (chans d1 c) = buffer (chans d c) @ evs \<and>
           map ev_ServiceInfo evs =
             take (capacity (chans d c) - length (buffer (chans d c)))
               (filter (Matches F) (map snd (services d))) \<and>
           (\<forall>e \<in> set evs. ev_Type e = ServiceChangeTypeAdded)) \<and>
    (\<forall>c'. c' \<noteq> c \<longrightarrow> chans d1 c' = chans d c') \<and>
    ((clock d (ticks d), c) \<in> set (eventListeners d2) \<and>
     length (buffer (chans d2 c)) < capacity (chans d2 c) \<longrightarrow>
       (\<forall>ev. buffer (chans (notifyListeners ev d2) c) = buffer (chans d2 c) @ deliveries c ev d2 \<and>
             deliveries c ev d2 \<noteq> [] \<and> set (deliveries c ev d2) = {ev}) \<and>
       (initialized d2 \<and> ID info \<noteq> [] \<and> Name info \<noteq> [] \<and> Address info \<noteq> [] \<and> Port info \<noteq> 0 \<longrightarrow>
          (\<exists>ev. buffer (chans (snd (RegisterService d2 info)) c)
                   = buffer (chans d2 c) @ deliveries c ev d2 \<and>
                deliveries c ev d2 \<noteq> [] \<and> set (deliveries c ev d2) = {ev} \<and>
                ID (ev_ServiceInfo ev) = ID info \<and>
                ev_Type ev = (if map_of (services d2) (ID info) = None
                              then ServiceChangeTypeAdded else ServiceChangeTypeUpdated))) \<and>
       (initialized d2 \<and> map_of (services d2) sid = Some info' \<longrightarrow>
          (\<exists>ev. buffer (chans (snd (DeregisterService d2 sid)) c)
                   = buffer (chans d2 c) @ deliveries c ev d2 \<and>
                deliveries c ev d2 \<noteq> [] \<and> set (deliveries c ev d2) = {ev} \<and>
                ev_ServiceInfo ev = info' \<and> ev_Type ev = ServiceChangeTypeRemoved)) \<and>
       (map_of (services d2) sid = Some info' \<and> Status info' \<noteq> st \<longrightarrow>
          (\<exists>ev. buffer (chans (updateServiceStatus d2 sid st) c)
                   = buffer (chans d2 c) @ deliveries c ev d2 \<and>
                deliveries c ev d2 \<noteq> [] \<and> set (deliveries c ev d2) = {ev} \<and>
                ID (ev_ServiceInfo ev) = ID info' \<and> Status (ev_ServiceInfo ev) = st \<and>
                ev_Type ev = ServiceChangeTypeUpdated)))"
proof -
  let ?lid = "clock d (ticks d)"
  let ?d0 = "d\<lparr>ticks := Suc (ticks d), eventListeners := AList.update ?lid c (eventListeners d)\<rparr>"
  from WatchServices_ok [OF init en, of F c] w
  have r: "r = Inr ?lid" and d1: "d1 = replay_services F c (services d) ?d0"
    by simp_all
  have ls: "eventListeners d1 = AList.update ?lid c (eventListeners d)"
    and sv: "services d1 = services d" and i1: "initialized d1"
    using init by (simp_all add: d1)
  have mem: "(?lid, c) \<in> set (eventListeners d1)"
    unfolding ls by (rule update_entry)
  from replay_services_buffer [of F c "services d" ?d0]
  have rep: "\<exists>evs. buffer (chans d1 c) = buffer (chans d c) @ evs \<and>
           map ev_ServiceInfo evs =
             take (capacity (chans d c) - length (buffer (chans d c)))
               (filter (Matches F) (map snd (services d))) \<and>
           (\<forall>e \<in> set evs. ev_Type e = ServiceChangeTypeAdded)"
    by (simp add: d1)
  have oth: "\<forall>c'. c' \<noteq> c \<longrightarrow> chans d1 c' = chans d c'"
    by (simp add: d1 replay_services_other_chans)
  have later: "(?lid, c) \<in> set (eventListeners d2) \<and>
     length (buffer (chans d2 c)) < capacity (chans d2 c) \<longrightarrow>
       (\<forall>ev. buffer (chans (notifyListeners ev d2) c) = buffer (chans d2 c) @ deliveries c ev d2 \<and>
             deliveries c ev d2 \<noteq> [] \<and> set (deliveries c ev d2) = {ev}) \<and>
       (initialized d2 \<and> ID info \<noteq> [] \<and> Name info \<noteq> [] \<and> Address info \<noteq> [] \<and> Port info \<noteq> 0 \<longrightarrow>
          (\<exists>ev. buffer (chans (snd (RegisterService d2 info)) c)
                   = buffer (chans d2 c) @ deliveries c ev d2 \<and>
                deliveries c ev d2 \<noteq> [] \<and> set (deliveries c ev d2) = {ev} \<and>
                ID (ev_ServiceInfo ev) = ID info \<and>
                ev_Type ev = (if map_of (services d2) (ID info) = None
                              then ServiceChangeTypeAdded else ServiceChangeTypeUpdated))) \<and>
       (initialized d2 \<and> map_of (services d2) sid = Some info' \<longrightarrow>
          (\<exists>ev. buffer (chans (snd (DeregisterService d2 sid)) c)
                   = buffer (chans d2 c) @ deliveries c ev d2 \<and>
                deliveries c ev d2 \<noteq> [] \<and> set (deliveries c ev d2) = {ev} \<and>
                ev_ServiceInfo ev = info' \<and> ev_Type ev = ServiceChangeTypeRemoved)) \<and>
       (map_of (services d2) sid = Some info' \<and> Status info' \<noteq> st \<longrightarrow>
          (\<exists>ev. buffer (chans (updateServiceStatus d2 sid st) c)
                   = buffer (chans d2 c) @ deliveries c ev d2 \<and>
                deliveries c ev d2 \<noteq> [] \<and> set (deliveries c ev d2) = {ev} \<and>
                ID (ev_ServiceInfo ev) = ID info' \<and> Status (ev_ServiceInfo ev) = st \<and>
                ev_Type ev = ServiceChangeTypeUpdated))"
  proof (intro impI conjI allI)
    assume a: "(?lid, c) \<in> set (eventListeners d2) \<and>
       length (buffer (chans d2 c)) < capacity (chans d2 c)"
    then have dreg: "\<And>ev. deliveries c ev d2 \<noteq> [] \<and> set (deliveries c ev d2) = {ev}"
      using deliveries_registered by blast
    fix ev
    show "buffer (chans (notifyListeners ev d2) c) = buffer (chans d2 c) @ deliveries c ev d2"
      by (rule notifyListeners_buffer)
    show "deliveries c ev d2 \<noteq> []" "set (deliveries c ev d2) = {ev}"
      using dreg by blast+
  next
    assume a: "(?lid, c) \<in> set (eventListeners d2) \<and>
       length (buffer (chans d2 c)) < capacity (chans d2 c)"
    then have dreg: "\<And>ev. deliveries c ev d2 \<noteq> [] \<and> set (deliveries c ev d2) = {ev}"
      using deliveries_registered by blast
    assume v: "initialized d2 \<and> ID info \<noteq> [] \<and> Name info \<noteq> [] \<and> Address info \<noteq> [] \<and> Port info \<noteq> 0"
    show "\<exists>ev. buffer (chans (snd (RegisterService d2 info)) c)
                   = buffer (chans d2 c) @ deliveries c ev d2 \<and>
                deliveries c ev d2 \<noteq> [] \<and> set (deliveries c ev d2) = {ev} \<and>
                ID (ev_ServiceInfo ev) = ID info \<and>
                ev_Type ev = (if map_of (services d2) (ID info) = None
                              then ServiceChangeTypeAdded else ServiceChangeTypeUpdated)"
    proof (cases "map_of (services d2) (ID info)")
      case None
      let ?i = "info\<lparr>Status := (if Status info = [] then DefaultServiceStatus (disc_config d2)
                          else Status info),
              LastUpdated := go_div (clock d2 (ticks d2)) 1000000\<rparr>"
      let ?ev = "\<lparr>ev_Type = ServiceChangeTypeAdded, ev_ServiceInfo = ?i,
           Timestamp = go_div (clock d2 (Suc (ticks d2))) 1000000\<rparr>"
      let ?d' = "d2\<lparr>services := AList.update (ID info) ?i (services d2),
             ticks := Suc (Suc (ticks d2))\<rparr>"
      from v None have reg: "RegisterService d2 info =
          (None, ConnectionsTotal_Inc (notifyListeners ?ev ?d'))"
        by (intro RegisterService_fresh) simp_all
      have "deliveries c ?ev ?d' = deliveries c ?ev d2"
        by (rule deliveries_cong) simp_all
      then have "buffer (chans (snd (RegisterService d2 info)) c)
                   = buffer (chans d2 c) @ deliveries c ?ev d2"
        by (simp add: reg notifyListeners_buffer)
      with dreg [of ?ev] None show ?thesis
        by (intro exI [of _ ?ev]) simp
    next
      case (Some ex)
      let ?ev = "\<lparr>ev_Type = ServiceChangeTypeUpdated, ev_ServiceInfo = info,
           Timestamp = go_div (clock d2 (ticks d2)) 1000000\<rparr>"
      let ?d' = "d2\<lparr>services := AList.update (ID info) info (services d2), ticks := Suc (ticks d2)\<rparr>"
      from v Some have reg: "RegisterService d2 info =
          (None, ConnectionsTotal_Inc (notifyListeners ?ev ?d'))"
        by (intro RegisterService_existing) simp_all
      have "deliveries c ?ev ?d' = deliveries c ?ev d2"
        by (rule deliveries_cong) simp_all
      then have "buffer (chans (snd (RegisterService d2 info)) c)
                   = buffer (chans d2 c) @ deliveries c ?ev d2"
        by (simp add: reg notifyListeners_buffer)
      with dreg [of ?ev] Some show ?thesis
        by (intro exI [of _ ?ev]) simp
    qed
  next
    assume a: "(?lid, c) \<in> set (eventListeners d2) \<and>
       length (buffer (chans d2 c)) < capacity (chans d2 c)"
    then have dreg: "\<And>ev. deliveries c ev d2 \<noteq> [] \<and> set (deliveries c ev d2) = {ev}"
      using deliveries_registered by blast
    assume v: "initialized d2 \<and> map_of (services d2) sid = Some info'"
    let ?ev = "\<lparr>ev_Type = ServiceChangeTypeRemoved, ev_ServiceInfo = info',
           Timestamp = go_div (clock d2 (ticks d2)) 1000000\<rparr>"
    let ?d' = "d2\<lparr>services := AList.delete sid (services d2), ticks := Suc (ticks d2)\<rparr>"
    from v have dr: "DeregisterService d2 sid =
        (None, ConnectionFailures_Inc (notifyListeners ?ev ?d'))"
      by (intro DeregisterService_ok) simp_all
    have "deliveries c ?ev ?d' = deliveries c ?ev d2"
      by (rule deliveries_cong) simp_all
    then have "buffer (chans (snd (DeregisterService d2 sid)) c)
                   = buffer (chans d2 c) @ deliveries c ?ev d2"
      by (simp add: dr notifyListeners_buffer)
    with dreg [of ?ev] show "\<exists>ev. buffer (chans (snd (DeregisterService d2 sid)) c)
                   = buffer (chans d2 c) @ deliveries c ev d2 \<and>
                deliveries c ev d2 \<noteq> [] \<and> set (deliveries c ev d2) = {ev} \<and>
                ev_ServiceInfo ev = info' \<and> ev_Type ev = ServiceChangeTypeRemoved"
      by (intro exI [of _ ?ev]) simp
  next
    assume a: "(?lid, c) \<in> set (eventListeners d2) \<and>
       length (buffer (chans d2 c)) < capacity (chans d2 c)"
    then have dreg: "\<And>ev. deliveries c ev d2 \<noteq> [] \<and> set (deliveries c ev d2) = {ev}"
      using deliveries_registered by blast
    assume v: "map_of (services d2) sid = Some info' \<and> Status info' \<noteq> st"
    let ?i = "info'\<lparr>Status := st, LastUpdated := go_div (clock d2 (ticks d2)) 1000000\<rparr>"
    let ?ev = "\<lparr>ev_Type = ServiceChangeTypeUpdated, ev_ServiceInfo = ?i,
           Timestamp = go_div (clock d2 (ticks d2)) 1000000\<rparr>"
    from v status_update_delivered [of d2 sid info' st]
    have "buffer (chans (updateServiceStatus d2 sid st) c) = buffer (chans d2 c) @ deliveries c ?ev d2"
      by blast
    with dreg [of ?ev] show "\<exists>ev. buffer (chans (updateServiceStatus d2 sid st) c)
                   = buffer (chans d2 c) @ deliveries c ev d2 \<and>
                deliveries c ev d2 \<noteq> [] \<and> set (deliveries c ev d2) = {ev} \<and>
                ID (ev_ServiceInfo ev) = ID info' \<and> Status (ev_ServiceInfo ev) = st \<and>
                ev_Type ev = ServiceChangeTypeUpdated"
      by (intro exI [of _ ?ev]) simp
  qed
  from r ls mem sv i1 rep oth later show ?thesis by (intro conjI)
qed


theorem WatchServices_filter_only_replay_witness:
  "initialized new_registry \<and> EnableWatching (disc_config new_registry) \<and>
   \<not> Matches prod_filter audit_service \<and>
   fst (WatchServices new_registry prod_filter (Some 0)) = Inr 1700000000000000000 \<and>
   buffer (chans watched_registry 0) = [] \<and>
   map (\<lambda>e. (ev_Type e, ID (ev_ServiceInfo e)))
     (buffer (chans (snd (RegisterService watched_registry audit_service)) 0))
     = [(ServiceChangeTypeAdded, ''svc-2'')] \<and>
   map (\<lambda>e. (ev_Type e, ID (ev_ServiceInfo e)))
     (buffer (chans (snd (WatchServices two_services prod_filter (Some 0))) 0))
     = [(ServiceChangeTypeAdded, ''svc-1'')]"
proof -
  have i0: "initialized new_registry" and w0: "EnableWatching (disc_config new_registry)"
    and lid: "clock new_registry (ticks new_registry) = 1700000000000000000"
    by (simp_all add: new_registry_def DiscoveryService_Initialize_def NewDiscoveryService_def
        DefaultDiscoveryConfig_def example_clock_def)
  have nm: "\<not> Matches prod_filter audit_service"
    by (simp add: Matches_def prod_filter_def audit_service_def)
  have r0: "WatchServices new_registry prod_filter (Some 0)
      = (fst (WatchServices new_registry prod_filter (Some 0)), watched_registry)"
    by (simp add: watched_registry_def)
  have va: "initialized watched_registry \<and> ID audit_service \<noteq> [] \<and> Name audit_service \<noteq> [] \<and>
      Address audit_service \<noteq> [] \<and> Port audit_service \<noteq> 0"
    by (simp add: watched_registry_fields audit_service_def)
  have b0: "buffer (chans watched_registry 0) = []"
    and room: "length (buffer (chans watched_registry 0)) < capacity (chans watched_registry 0)"
    and one: "filter (\<lambda>l. snd l = 0) (eventListeners watched_registry) = [(1700000000000000000, 0)]"
    and fresh: "map_of (services watched_registry) (ID audit_service) = None"
    by (simp_all add: watched_registry_fields example_chans_def)
  note t = WatchServices_filter_only_replay
    [OF i0 w0 r0, where ?d2.0 = watched_registry and info = audit_service]
  have f: "fst (WatchServices new_registry prod_filter (Some 0))
      = Inr (clock new_registry (ticks new_registry))"
    by (rule t [THEN conjunct1])
  have mem: "(clock new_registry (ticks new_registry), 0) \<in> set (eventListeners watched_registry)"
    by (rule t [THEN conjunct2, THEN conjunct2, THEN conjunct1])
  note later = t [THEN conjunct2, THEN conjunct2, THEN conjunct2, THEN conjunct2,
      THEN conjunct2, THEN conjunct2, THEN conjunct2, THEN mp, OF conjI [OF mem room]]
  from later [THEN conjunct2, THEN conjunct1, THEN mp, OF va] obtain ev where
    ev: "buffer (chans (snd (RegisterService watched_registry audit_service)) 0)
           = buffer (chans watched_registry 0) @ deliveries 0 ev watched_registry"
    "ID (ev_ServiceInfo ev) = ID audit_service"
    "ev_Type ev = (if map_of (services watched_registry) (ID audit_service) = None
                   then ServiceChangeTypeAdded else ServiceChangeTypeUpdated)"
    by blast
  have "deliveries 0 ev watched_registry = [ev]"
    using one room by (rule deliveries_single)
  with ev b0 fresh have reg: "map (\<lambda>e. (ev_Type e, ID (ev_ServiceInfo e)))
     (buffer (chans (snd (RegisterService watched_registry audit_service)) 0))
     = [(ServiceChangeTypeAdded, ''svc-2'')]"
    by (simp add: audit_service_def)
  let ?e = "echo_service\<lparr>Status := ''running'', LastUpdated := 1700000000000\<rparr>"
  let ?a = "audit_service\<lparr>LastUpdated := 1700000000002\<rparr>"
  have i2: "initialized two_services" by (rule two_services_initialized)
  have w2: "EnableWatching (disc_config two_services)"
    and c2: "chans two_services = example_chans"
    by (simp_all add: two_services_def eval_registry)
  have m2: "filter (Matches prod_filter) (map snd (services two_services)) = [?e]"
    unfolding two_services_services
    by (simp add: Matches_def prod_filter_def echo_service_def audit_service_def)
  have r2: "WatchServices two_services prod_filter (Some 0)
      = (fst (WatchServices two_services prod_filter (Some 0)),
         snd (WatchServices two_services prod_filter (Some 0)))"
    by simp
  note t2 = WatchServices_filter_only_replay [OF i2 w2 r2]
  from t2 [THEN conjunct2, THEN conjunct2, THEN conjunct2, THEN conjunct2,
      THEN conjunct2, THEN conjunct1]
  obtain evs where evs:
    "buffer (chans (snd (WatchServices two_services prod_filter (Some 0))) 0)
       = buffer (chans two_services 0) @ evs"
    "map ev_ServiceInfo evs =
       take (capacity (chans two_services 0) - length (buffer (chans two_services 0)))
         (filter (Matches prod_filter) (map snd (services two_services)))"
    "\<forall>e \<in> set evs. ev_Type e = ServiceChangeTypeAdded"
    by blast
  from evs(2) have "map ev_ServiceInfo evs = [?e]"
    unfolding m2 c2 by (simp add: example_chans_def)
  then obtain e where e: "evs = [e]" "ev_ServiceInfo e = ?e"
    by (auto simp: map_eq_Cons_conv)
  with evs(3) have "ev_Type e = ServiceChangeTypeAdded" by simp
  with evs(1) e have rep: "map (\<lambda>e. (ev_Type e, ID (ev_ServiceInfo e)))
     (buffer (chans (snd (WatchServices two_services prod_filter (Some 0))) 0))
     = [(ServiceChangeTypeAdded, ''svc-1'')]"
    by (simp add: c2 example_chans_def echo_service_def)
  from f lid have f': "fst (WatchServices new_registry prod_filter (Some 0)) = Inr 1700000000000000000"
    by simp
  from i0 w0 nm f' b0 reg rep show ?thesis by (intro conjI)
qed

subsection \<open>The service map has distinct keys\<close>

text \<open>
  The entries of the service map have distinct keys in a new registry, and every
  operation keeps them so: the hypothesis of distinct keys describes a Go map.
\<close>

lemma services_distinct_preserved:
  "distinct (map fst (services (NewDiscoveryService cfg m chs clk)))"
  "distinct (map fst (services d)) \<Longrightarrow>
     distinct (map fst (services (DiscoveryService_Initialize d)))"
  "distinct (map fst (services d)) \<Longrightarrow>
     distinct (map fst (services (snd (RegisterService d info))))"
  "distinct (map fst (services d)) \<Longrightarrow>
     distinct (map fst (services (snd (DeregisterService d sid))))"
  "distinct (map fst (services d)) \<Longrightarrow>
     distinct (map fst (services (updateServiceStatus d sid st)))"
  "distinct (map fst (services d)) \<Longrightarrow>
     distinct (map fst (services (snd (CheckServiceHealth d sid))))"
  "distinct (map fst (services d)) \<Longrightarrow>
     distinct (map fst (services (snd (WatchServices d F ch))))"
  "distinct (map fst (services d)) \<Longrightarrow>
     distinct (map fst (services (snd (UpdateServiceMetadata d sid md))))"
proof -
  show "distinct (map fst (services (NewDiscoveryService cfg m chs clk)))"
    by (simp add: NewDiscoveryService_def)
  assume dist: "distinct (map fst (services d))"
  show "distinct (map fst (services (DiscoveryService_Initialize d)))"
    using dist by (simp add: DiscoveryService_Initialize_def)
  show "distinct (map fst (services (snd (RegisterService d info))))"
    using dist
    by (simp add: RegisterService_def now_millis_def Let_def distinct_update
        split: option.splits)
  show "distinct (map fst (services (snd (DeregisterService d sid))))"
    using dist
    by (simp add: DeregisterService_def now_millis_def Let_def distinct_delete
        split: option.splits)
  show upd: "distinct (map fst (services (updateServiceStatus d sid st)))" for st
    using dist
    by (simp add: updateServiceStatus_def now_millis_def Let_def distinct_update
        split: option.splits)
  show "distinct (map fst (services (snd (CheckServiceHealth d sid))))"
    using dist upd
    by (simp add: CheckServiceHealth_def split: option.splits sum.splits)
  show "distinct (map fst (services (snd (WatchServices d F ch))))"
    using dist
    by (simp add: WatchServices_def time_Now_UnixNano_def split: option.splits)
  show "distinct (map fst (services (snd (UpdateServiceMetadata d sid md))))"
    using dist
    by (simp add: UpdateServiceMetadata_def now_millis_def Let_def distinct_update
        split: option.splits)
qed

end
